theory Spec2Isabelle
  imports Main
begin

section \<open>JavaScript values\<close>

text \<open>
  A channel declared \<^verbatim>\<open>T | null\<close> can hold a value, \<^verbatim>\<open>null\<close>, or (at run time, when a
  node writes it so) \<^verbatim>\<open>undefined\<close>.
\<close>

datatype 'a nullable = Undefined | Null | Val 'a

text \<open>The nullish coalescing operator: \<^verbatim>\<open>y ?? x\<close> is \<^verbatim>\<open>x\<close> when \<^verbatim>\<open>y\<close> is null or undefined.\<close>

definition nullish :: "'a nullable \<Rightarrow> 'a nullable \<Rightarrow> 'a nullable" where
  "nullish y x = (case y of Undefined \<Rightarrow> x | Null \<Rightarrow> x | Val v \<Rightarrow> Val v)"

text \<open>Truthiness of \<^verbatim>\<open>boolean | null\<close> and of \<^verbatim>\<open>object | null\<close> (an object is always truthy).\<close>

definition truthy_bool :: "bool nullable \<Rightarrow> bool" where
  "truthy_bool b = (case b of Val v \<Rightarrow> v | _ \<Rightarrow> False)"

definition truthy_obj :: "'a nullable \<Rightarrow> bool" where
  "truthy_obj x = (case x of Val v \<Rightarrow> True | _ \<Rightarrow> False)"

text \<open>
  Strings that the program writes as literals, and message contents, are \<open>string\<close>s.
  A string decoded from JSON is a list of UTF-16 code units, since an escape
  \<^verbatim>\<open>\uXXXX\<close> can denote any 16-bit unit.
\<close>

type_synonym jsstring = "nat list"

definition js :: "string \<Rightarrow> jsstring" where
  "js s = map of_char s"

text \<open>
  The values \<^verbatim>\<open>JSON.parse\<close> returns, and the arguments of a tool call. A number keeps
  its lexeme; an object keeps its members in the order written (a later member of the
  same name overrides an earlier one when the property is read).
\<close>

datatype jsval =
    JNull
  | JBool bool
  | JNum string
  | JStr jsstring
  | JArr "jsval list"
  | JObj "(jsstring \<times> jsval) list"

section \<open>Schemas (\<^verbatim>\<open>humanNameSchema\<close>, \<^verbatim>\<open>narrativeSchema\<close>, \<^verbatim>\<open>patientCreateSchema\<close>, \<^verbatim>\<open>patientSchema\<close>)\<close>

record Narrative =
  status :: jsstring
  div_ :: jsstring

record HumanName =
  use :: jsstring
  family :: jsstring
  given :: "jsstring list"

record PatientCreate =
  resourceType :: jsstring
  text_ :: Narrative
  name :: "HumanName list"
  gender :: jsstring
  birthDate :: jsstring

record Patient = PatientCreate +
  id_ :: jsstring

text \<open>
  The schemas as validators of a tool call's arguments: \<open>None\<close> when the arguments do
  not match. A property is read from an object only (a later member of the same name
  overrides an earlier one), every field is required, and unknown keys are dropped.
\<close>

definition get_prop :: "jsval \<Rightarrow> jsstring \<Rightarrow> jsval option" where
  "get_prop v k = (case v of JObj members \<Rightarrow> map_of (rev members) k | _ \<Rightarrow> None)"

definition z_string :: "jsval \<Rightarrow> jsstring option" where
  "z_string v = (case v of JStr s \<Rightarrow> Some s | _ \<Rightarrow> None)"

definition z_boolean :: "jsval \<Rightarrow> bool option" where
  "z_boolean v = (case v of JBool b \<Rightarrow> Some b | _ \<Rightarrow> None)"

definition z_enum :: "string list \<Rightarrow> jsval \<Rightarrow> jsstring option" where
  "z_enum values v =
     (case v of JStr s \<Rightarrow> if s \<in> set (map js values) then Some s else None | _ \<Rightarrow> None)"

definition z_literal :: "string \<Rightarrow> jsval \<Rightarrow> jsstring option" where
  "z_literal l v = (case v of JStr s \<Rightarrow> if s = js l then Some s else None | _ \<Rightarrow> None)"

definition z_array :: "(jsval \<Rightarrow> 'a option) \<Rightarrow> jsval \<Rightarrow> 'a list option" where
  "z_array element v = (case v of JArr xs \<Rightarrow> those (map element xs) | _ \<Rightarrow> None)"

definition z_field :: "jsval \<Rightarrow> string \<Rightarrow> (jsval \<Rightarrow> 'a option) \<Rightarrow> 'a option" where
  "z_field v k schema = (case get_prop v (js k) of None \<Rightarrow> None | Some x \<Rightarrow> schema x)"

definition humanNameSchema :: "jsval \<Rightarrow> HumanName option" where
  "humanNameSchema v =
     (case (z_field v ''use'' (z_enum [''usual'', ''official'', ''temp'', ''nickname'',
                                        ''anonymous'', ''old'', ''maiden'']),
            z_field v ''family'' z_string,
            z_field v ''given'' (z_array z_string)) of
        (Some u, Some f, Some g) \<Rightarrow> Some \<lparr>use = u, family = f, given = g\<rparr>
      | _ \<Rightarrow> None)"

definition narrativeSchema :: "jsval \<Rightarrow> Narrative option" where
  "narrativeSchema v =
     (case (z_field v ''status'' (z_enum [''generated'', ''extensions'', ''additional'', ''empty'']),
            z_field v ''div'' z_string) of
        (Some st, Some d) \<Rightarrow> Some \<lparr>status = st, div_ = d\<rparr>
      | _ \<Rightarrow> None)"

definition patientCreateSchema :: "jsval \<Rightarrow> PatientCreate option" where
  "patientCreateSchema v =
     (case (z_field v ''resourceType'' (z_literal ''Patient''),
            z_field v ''text'' narrativeSchema,
            z_field v ''name'' (z_array humanNameSchema),
            z_field v ''gender'' (z_enum [''male'', ''female'', ''other'', ''unknown'']),
            z_field v ''birthDate'' z_string) of
        (Some rt, Some t, Some n, Some g, Some b) \<Rightarrow>
          Some \<lparr>resourceType = rt, text_ = t, name = n, gender = g, birthDate = b\<rparr>
      | _ \<Rightarrow> None)"

definition patientSchema :: "jsval \<Rightarrow> Patient option" where
  "patientSchema v =
     (case (patientCreateSchema v, z_field v ''id'' z_string) of
        (Some p, Some i) \<Rightarrow> Some (PatientCreate.extend p \<lparr>id_ = i\<rparr>)
      | _ \<Rightarrow> None)"

text \<open>The schema of \<^verbatim>\<open>resource_draft\<close>: \<^verbatim>\<open>z.object({ approved: z.boolean() })\<close>.\<close>

definition approvalSchema :: "jsval \<Rightarrow> bool option" where
  "approvalSchema v = z_field v ''approved'' z_boolean"

section \<open>Messages and the state (\<^verbatim>\<open>AgentState\<close>)\<close>

datatype MessageType = HumanMessage | AIMessage | SystemMessage | ToolMessage

record ToolCall =
  tc_name :: string
  tc_args :: jsval
  tc_id :: string

text \<open>\<open>tool_calls\<close> is \<open>None\<close> on a message that has no such property (\<^verbatim>\<open>undefined\<close>).\<close>

record BaseMessage =
  msg_type :: MessageType
  content :: string
  tool_calls :: "ToolCall list option"

record AgentState =
  messages :: "BaseMessage list"
  sender :: "string nullable"
  patientCreate :: "PatientCreate nullable"
  patient :: "Patient nullable"
  patientUpdate :: "Patient nullable"
  resourceApproved :: "bool nullable"

text \<open>The reducers of \<^verbatim>\<open>Annotation.Root\<close>, one per channel, as the source writes them.\<close>

definition messages_reducer :: "BaseMessage list \<Rightarrow> BaseMessage list \<Rightarrow> BaseMessage list" where
  "messages_reducer x y = x @ y"

definition sender_reducer :: "string nullable \<Rightarrow> string nullable \<Rightarrow> string nullable" where
  "sender_reducer x y = nullish y x"

definition patientCreate_reducer ::
  "PatientCreate nullable \<Rightarrow> PatientCreate nullable \<Rightarrow> PatientCreate nullable" where
  "patientCreate_reducer x y = y"

definition patient_reducer :: "Patient nullable \<Rightarrow> Patient nullable \<Rightarrow> Patient nullable" where
  "patient_reducer x y = y"

definition patientUpdate_reducer :: "Patient nullable \<Rightarrow> Patient nullable \<Rightarrow> Patient nullable" where
  "patientUpdate_reducer x y = y"

definition resourceApproved_reducer :: "bool nullable \<Rightarrow> bool nullable \<Rightarrow> bool nullable" where
  "resourceApproved_reducer x y = y"

text \<open>The second variant's \<open>sender\<close> reducer: \<^verbatim>\<open>(x, y) => y ?? x ?? "user"\<close>.\<close>

definition sender_reducer_v2 :: "string nullable \<Rightarrow> string nullable \<Rightarrow> string nullable" where
  "sender_reducer_v2 x y = nullish (nullish y x) (Val ''user'')"

text \<open>The channels' defaults; \<open>messages\<close> declares none and starts empty.\<close>

definition default_state :: AgentState where
  "default_state = \<lparr>messages = [], sender = Val ''user'', patientCreate = Null, patient = Null,
     patientUpdate = Null, resourceApproved = Null\<rparr>"

text \<open>
  A partial update is the object a node returns: each channel is either absent from it
  (\<open>None\<close>) or present with a value.
\<close>

record PartialUpdate =
  u_messages :: "BaseMessage list option"
  u_sender :: "string nullable option"
  u_patientCreate :: "PatientCreate nullable option"
  u_patient :: "Patient nullable option"
  u_patientUpdate :: "Patient nullable option"
  u_resourceApproved :: "bool nullable option"

definition no_update :: PartialUpdate where
  "no_update = \<lparr>u_messages = None, u_sender = None, u_patientCreate = None, u_patient = None,
     u_patientUpdate = None, u_resourceApproved = None\<rparr>"

text \<open>
  Modelled from the spec: the executor's merge step is the graph library's and is not
  under src/. Section 4.1: for every channel present in the partial update the channel's
  reducer is applied against the current value; channels absent from it are left
  untouched.
\<close>

definition merge :: "AgentState \<Rightarrow> PartialUpdate \<Rightarrow> AgentState" where
  "merge s u =
     \<lparr>messages = (case u_messages u of None \<Rightarrow> messages s | Some y \<Rightarrow> messages_reducer (messages s) y),
      sender = (case u_sender u of None \<Rightarrow> sender s | Some y \<Rightarrow> sender_reducer (sender s) y),
      patientCreate = (case u_patientCreate u of None \<Rightarrow> patientCreate s
                       | Some y \<Rightarrow> patientCreate_reducer (patientCreate s) y),
      patient = (case u_patient u of None \<Rightarrow> patient s | Some y \<Rightarrow> patient_reducer (patient s) y),
      patientUpdate = (case u_patientUpdate u of None \<Rightarrow> patientUpdate s
                       | Some y \<Rightarrow> patientUpdate_reducer (patientUpdate s) y),
      resourceApproved = (case u_resourceApproved u of None \<Rightarrow> resourceApproved s
                          | Some y \<Rightarrow> resourceApproved_reducer (resourceApproved s) y)\<rparr>"

section \<open>Tools\<close>

text \<open>
  \<^verbatim>\<open>tool(func, {name, description, schema})\<close>: a tool has a name and, invoked on a call's
  arguments, validates them against its schema and runs its function on the validated
  value; \<open>None\<close> when the arguments are rejected.
\<close>

record Tool =
  tool_name :: string
  invoke :: "jsval \<Rightarrow> PartialUpdate option"

definition tool :: "('a \<Rightarrow> PartialUpdate) \<Rightarrow> string \<Rightarrow> (jsval \<Rightarrow> 'a option) \<Rightarrow> Tool" where
  "tool func name' schema =
     \<lparr>tool_name = name', invoke = (\<lambda>args. map_option func (schema args))\<rparr>"

definition patientCreateTool :: Tool where
  "patientCreateTool = tool
     (\<lambda>patientCreate'. no_update\<lparr>u_resourceApproved := Some Null, u_patient := Some Null,
        u_patientCreate := Some (Val patientCreate'), u_patientUpdate := Some Null\<rparr>)
     ''patient_create'' patientCreateSchema"

definition patientUpdateTool :: Tool where
  "patientUpdateTool = tool
     (\<lambda>patientUpdate'. no_update\<lparr>u_resourceApproved := Some Null, u_patientCreate := Some Null,
        u_patientUpdate := Some (Val patientUpdate')\<rparr>)
     ''patient_update'' patientSchema"

definition resourceApprovalTool :: Tool where
  "resourceApprovalTool = tool
     (\<lambda>approved. no_update\<lparr>u_resourceApproved := Some (Val approved)\<rparr>)
     ''resource_draft'' approvalSchema"

text \<open>The registry the tool node of \<open>createGraph\<close> is built over.\<close>

definition tools :: "Tool list" where
  "tools = [patientCreateTool, patientUpdateTool, resourceApprovalTool]"

section \<open>Nodes\<close>

text \<open>
  What a node can throw. An agent is the prompt piped into the language model; its
  invocation either returns one message or fails with the backend's error, which
  \<open>runAgentNode\<close> lets through.
\<close>

datatype error =
    NodeInterrupt string
  | AgentError string
  | TypeError
  | SyntaxError

type_synonym agent = "AgentState \<Rightarrow> string + BaseMessage"

definition runAgentNode :: "AgentState \<Rightarrow> agent \<Rightarrow> string \<Rightarrow> error + PartialUpdate" where
  "runAgentNode state agent name' =
     (if sender state = Val name' then Inl (NodeInterrupt ''Wait for user input'')
      else (case agent state of
              Inl e \<Rightarrow> Inl (AgentError e)
            | Inr result \<Rightarrow>
                Inr \<lparr>u_messages = Some [result],
                     u_sender = Some (Val name'),
                     u_patientCreate = Some (patientCreate state),
                     u_patient = Some (patient state),
                     u_patientUpdate = Some (patientUpdate state),
                     u_resourceApproved = Some (resourceApproved state)\<rparr>))"

definition patientCreateNode :: "agent \<Rightarrow> AgentState \<Rightarrow> error + PartialUpdate" where
  "patientCreateNode patientCreateAgent state = runAgentNode state patientCreateAgent ''Patient creater''"

definition patientUpdateNode :: "agent \<Rightarrow> AgentState \<Rightarrow> error + PartialUpdate" where
  "patientUpdateNode patientUpdateAgent state = runAgentNode state patientUpdateAgent ''Patient updater''"

text \<open>
  \<open>draftResourceApproveNode\<close> shows the agent the history extended by a system prompt
  that quotes the draft (\<^verbatim>\<open>state.patientCreate ?? state.patientUpdate\<close>); the prompt's text
  is the parameter \<open>prompt\<close>. \<^verbatim>\<open>slice(-1)\<close> keeps the last element of the returned list.
\<close>

definition slice_last :: "'a list \<Rightarrow> 'a list" where
  "slice_last xs = (if xs = [] then [] else [last xs])"

definition draftResourceApproveNode ::
  "(AgentState \<Rightarrow> string) \<Rightarrow> agent \<Rightarrow> AgentState \<Rightarrow> error + PartialUpdate" where
  "draftResourceApproveNode prompt resourceApprovalAgent state =
     (case runAgentNode
             (state\<lparr>messages := messages state @
                 [\<lparr>msg_type = SystemMessage, content = prompt state, tool_calls = None\<rparr>]\<rparr>)
             resourceApprovalAgent ''Draft resource approver'' of
        Inl e \<Rightarrow> Inl e
      | Inr result \<Rightarrow> Inr (result\<lparr>u_messages := map_option slice_last (u_messages result)\<rparr>))"

definition approveResourceNode :: "AgentState \<Rightarrow> PartialUpdate" where
  "approveResourceNode state =
     \<lparr>u_messages = None,
      u_sender = Some (Val ''Resource approver''),
      u_patientCreate = Some Null,
      u_patient = Some (patientUpdate state),
      u_patientUpdate = Some Null,
      u_resourceApproved = Some Null\<rparr>"

section \<open>\<^verbatim>\<open>JSON.parse\<close>\<close>

text \<open>
  \<^verbatim>\<open>JSON.parse\<close> is the language's own; \<open>toolMessageUpdateStateNode\<close> calls it on a
  message's content. The model follows the JSON grammar (ECMA-404): a lexer
  that reads the text one character at a time, then a parser that reads the tokens one
  at a time against a stack of open arrays and objects. \<open>None\<close> is the \<^verbatim>\<open>SyntaxError\<close>.
\<close>

datatype token =
    TLBrace | TRBrace | TLBrack | TRBrack | TColon | TComma
  | TString jsstring | TNumber string | TTrue | TFalse | TNull

text \<open>JSON white space is tab, line feed, carriage return and space, nothing else.\<close>

definition is_ws :: "char \<Rightarrow> bool" where
  "is_ws c = (c = CHR '' '' \<or> c = CHR 0x09 \<or> c = CHR 0x0A \<or> c = CHR 0x0D)"

definition is_digit :: "char \<Rightarrow> bool" where
  "is_digit c = ((48::nat) \<le> of_char c \<and> of_char c \<le> (57::nat))"

definition is_num_char :: "char \<Rightarrow> bool" where
  "is_num_char c = (is_digit c \<or> c = CHR ''-'' \<or> c = CHR ''+'' \<or> c = CHR ''.''
     \<or> c = CHR ''e'' \<or> c = CHR ''E'')"

definition hex_val :: "char \<Rightarrow> nat option" where
  "hex_val c =
     (let n = of_char c :: nat in
      if 48 \<le> n \<and> n \<le> 57 then Some (n - 48)
      else if 65 \<le> n \<and> n \<le> 70 then Some (n - 55)
      else if 97 \<le> n \<and> n \<le> 102 then Some (n - 87)
      else None)"

text \<open>The single-character escapes: quote, backslash, slash, b, f, n, r, t.\<close>

definition escape :: "char \<Rightarrow> nat option" where
  "escape c =
     (if c = CHR 0x22 then Some 0x22
      else if c = CHR 0x5C then Some 0x5C
      else if c = CHR ''/'' then Some 0x2F
      else if c = CHR ''b'' then Some 0x08
      else if c = CHR ''f'' then Some 0x0C
      else if c = CHR ''n'' then Some 0x0A
      else if c = CHR ''r'' then Some 0x0D
      else if c = CHR ''t'' then Some 0x09
      else None)"

text \<open>
  A number is \<^verbatim>\<open>-? (0 | [1-9][0-9]*) (. [0-9]+)? ([eE] [+-]? [0-9]+)?\<close>. The lexer
  collects the longest run of characters that can occur in a number and checks the run
  against this grammar: after a number only white space, a comma or a closing bracket
  may follow, so a run that is not one number is an error either way.
\<close>

definition valid_exp :: "string \<Rightarrow> bool" where
  "valid_exp cs =
     (case cs of
        [] \<Rightarrow> True
      | e # r \<Rightarrow>
          (e = CHR ''e'' \<or> e = CHR ''E'')
          \<and> (let ds = (case r of
                          [] \<Rightarrow> []
                        | sg # r' \<Rightarrow> if sg = CHR ''+'' \<or> sg = CHR ''-'' then r' else r)
              in ds \<noteq> [] \<and> list_all is_digit ds))"

definition valid_frac_exp :: "string \<Rightarrow> bool" where
  "valid_frac_exp cs =
     (case cs of
        [] \<Rightarrow> True
      | c # r \<Rightarrow>
          if c = CHR ''.'' then takeWhile is_digit r \<noteq> [] \<and> valid_exp (dropWhile is_digit r)
          else valid_exp cs)"

definition valid_int :: "string \<Rightarrow> bool" where
  "valid_int cs =
     (case cs of
        [] \<Rightarrow> False
      | c # r \<Rightarrow>
          if c = CHR ''0'' then valid_frac_exp r
          else if is_digit c then valid_frac_exp (dropWhile is_digit r)
          else False)"

definition valid_number :: "string \<Rightarrow> bool" where
  "valid_number cs =
     (case cs of
        [] \<Rightarrow> False
      | c # r \<Rightarrow> if c = CHR ''-'' then valid_int r else valid_int cs)"

datatype lex_mode =
    Ready
  | InString jsstring
  | InEscape jsstring
  | InUnicode jsstring "nat list"
  | InNumber string
  | InLiteral string token

definition ready_step :: "char \<Rightarrow> (lex_mode \<times> token list) option" where
  "ready_step c =
     (if is_ws c then Some (Ready, [])
      else if c = CHR ''{'' then Some (Ready, [TLBrace])
      else if c = CHR ''}'' then Some (Ready, [TRBrace])
      else if c = CHR ''['' then Some (Ready, [TLBrack])
      else if c = CHR '']'' then Some (Ready, [TRBrack])
      else if c = CHR '':'' then Some (Ready, [TColon])
      else if c = CHR '','' then Some (Ready, [TComma])
      else if c = CHR 0x22 then Some (InString [], [])
      else if c = CHR ''-'' \<or> is_digit c then Some (InNumber [c], [])
      else if c = CHR ''t'' then Some (InLiteral ''rue'' TTrue, [])
      else if c = CHR ''f'' then Some (InLiteral ''alse'' TFalse, [])
      else if c = CHR ''n'' then Some (InLiteral ''ull'' TNull, [])
      else None)"

text \<open>
  One character in one mode: the next mode and the tokens completed. Inside a string a
  character below U+0020 is an error; a number ends at the first character that cannot
  belong to one, and that character is then read in mode \<open>Ready\<close>.
\<close>

definition lex_step :: "lex_mode \<Rightarrow> char \<Rightarrow> (lex_mode \<times> token list) option" where
  "lex_step m c =
     (case m of
        Ready \<Rightarrow> ready_step c
      | InString acc \<Rightarrow>
          if c = CHR 0x22 then Some (Ready, [TString (rev acc)])
          else if c = CHR 0x5C then Some (InEscape acc, [])
          else if of_char c < (0x20::nat) then None
          else Some (InString (of_char c # acc), [])
      | InEscape acc \<Rightarrow>
          if c = CHR ''u'' then Some (InUnicode acc [], [])
          else (case escape c of None \<Rightarrow> None | Some n \<Rightarrow> Some (InString (n # acc), []))
      | InUnicode acc ds \<Rightarrow>
          (case hex_val c of
             None \<Rightarrow> None
           | Some d \<Rightarrow>
               if length ds = 3
               then Some (InString (foldl (\<lambda>n h. 16 * n + h) 0 (ds @ [d]) # acc), [])
               else Some (InUnicode acc (ds @ [d]), []))
      | InNumber acc \<Rightarrow>
          if is_num_char c then Some (InNumber (c # acc), [])
          else if valid_number (rev acc) then
            (case ready_step c of
               None \<Rightarrow> None
             | Some (m', ts) \<Rightarrow> Some (m', TNumber (rev acc) # ts))
          else None
      | InLiteral r t \<Rightarrow>
          (case r of
             [] \<Rightarrow> None
           | e # r' \<Rightarrow>
               if c \<noteq> e then None
               else if r' = [] then Some (Ready, [t])
               else Some (InLiteral r' t, [])))"

definition lex_end :: "lex_mode \<Rightarrow> token list option" where
  "lex_end m =
     (case m of
        Ready \<Rightarrow> Some []
      | InNumber acc \<Rightarrow> if valid_number (rev acc) then Some [TNumber (rev acc)] else None
      | _ \<Rightarrow> None)"

primrec lex :: "lex_mode \<Rightarrow> string \<Rightarrow> token list option" where
  "lex m [] = lex_end m"
| "lex m (c # cs) =
     (case lex_step m c of
        None \<Rightarrow> None
      | Some (m', ts) \<Rightarrow> map_option ((@) ts) (lex m' cs))"

text \<open>
  The parser's stack holds the arrays and objects still open, each with what it has
  collected (latest first); an object also holds the member name that awaits its value.
\<close>

datatype frame =
    FArr "jsval list"
  | FObj "(jsstring \<times> jsval) list" "jsstring option"

datatype parse_mode =
    MValue | MArrFirst | MArrNext | MObjFirst | MObjKey | MColon | MObjNext | MDone jsval

definition push_value :: "jsval \<Rightarrow> frame list \<Rightarrow> (frame list \<times> parse_mode) option" where
  "push_value v st =
     (case st of
        [] \<Rightarrow> Some ([], MDone v)
      | FArr es # st' \<Rightarrow> Some (FArr (v # es) # st', MArrNext)
      | FObj ms None # st' \<Rightarrow> None
      | FObj ms (Some k) # st' \<Rightarrow> Some (FObj ((k, v) # ms) None # st', MObjNext))"

definition begin_value :: "token \<Rightarrow> frame list \<Rightarrow> (frame list \<times> parse_mode) option" where
  "begin_value t st =
     (case t of
        TLBrack \<Rightarrow> Some (FArr [] # st, MArrFirst)
      | TLBrace \<Rightarrow> Some (FObj [] None # st, MObjFirst)
      | TString s \<Rightarrow> push_value (JStr s) st
      | TNumber n \<Rightarrow> push_value (JNum n) st
      | TTrue \<Rightarrow> push_value (JBool True) st
      | TFalse \<Rightarrow> push_value (JBool False) st
      | TNull \<Rightarrow> push_value JNull st
      | _ \<Rightarrow> None)"

definition close_array :: "frame list \<Rightarrow> (frame list \<times> parse_mode) option" where
  "close_array st =
     (case st of FArr es # st' \<Rightarrow> push_value (JArr (rev es)) st' | _ \<Rightarrow> None)"

definition close_object :: "frame list \<Rightarrow> (frame list \<times> parse_mode) option" where
  "close_object st =
     (case st of FObj ms None # st' \<Rightarrow> push_value (JObj (rev ms)) st' | _ \<Rightarrow> None)"

definition set_key :: "token \<Rightarrow> frame list \<Rightarrow> (frame list \<times> parse_mode) option" where
  "set_key t st =
     (case (t, st) of
        (TString k, FObj ms None # st') \<Rightarrow> Some (FObj ms (Some k) # st', MColon)
      | _ \<Rightarrow> None)"

definition parse_step :: "frame list \<times> parse_mode \<Rightarrow> token \<Rightarrow> (frame list \<times> parse_mode) option" where
  "parse_step cfg t =
     (case cfg of (st, m) \<Rightarrow>
        (case m of
           MValue \<Rightarrow> begin_value t st
         | MArrFirst \<Rightarrow> if t = TRBrack then close_array st else begin_value t st
         | MArrNext \<Rightarrow> if t = TComma then Some (st, MValue)
                        else if t = TRBrack then close_array st else None
         | MObjFirst \<Rightarrow> if t = TRBrace then close_object st else set_key t st
         | MObjKey \<Rightarrow> set_key t st
         | MColon \<Rightarrow> if t = TColon then Some (st, MValue) else None
         | MObjNext \<Rightarrow> if t = TComma then Some (st, MObjKey)
                        else if t = TRBrace then close_object st else None
         | MDone v \<Rightarrow> None))"

primrec parse_tokens :: "frame list \<times> parse_mode \<Rightarrow> token list \<Rightarrow> jsval option" where
  "parse_tokens cfg [] = (case cfg of ([], MDone v) \<Rightarrow> Some v | _ \<Rightarrow> None)"
| "parse_tokens cfg (t # ts) =
     (case parse_step cfg t of None \<Rightarrow> None | Some cfg' \<Rightarrow> parse_tokens cfg' ts)"

definition JSON_parse :: "string \<Rightarrow> jsval option" where
  "JSON_parse text' =
     (case lex Ready text' of None \<Rightarrow> None | Some ts \<Rightarrow> parse_tokens ([], MValue) ts)"

text \<open>
  \<open>toolMessageUpdateStateNode\<close>: on an empty history \<^verbatim>\<open>state.messages[-1]\<close> is
  \<^verbatim>\<open>undefined\<close> and reading its \<^verbatim>\<open>content\<close> throws a \<^verbatim>\<open>TypeError\<close>. Otherwise the node
  returns what \<^verbatim>\<open>JSON.parse\<close> makes of the last message's content, or throws its
  \<^verbatim>\<open>SyntaxError\<close>.
\<close>

definition toolMessageUpdateStateNode :: "AgentState \<Rightarrow> error + jsval" where
  "toolMessageUpdateStateNode state =
     (let messages' = messages state in
      if messages' = [] then Inl TypeError
      else (case JSON_parse (content (messages' ! (length messages' - 1))) of
              None \<Rightarrow> Inl SyntaxError
            | Some v \<Rightarrow> Inr v))"

section \<open>Routing\<close>

text \<open>
  \<open>callToolElse\<close>: \<^verbatim>\<open>messages[messages.length - 1]\<close> is \<^verbatim>\<open>undefined\<close> on an empty history,
  and \<^verbatim>\<open>lastMessage?.tool_calls\<close> is then \<^verbatim>\<open>undefined\<close> too; an array, even an empty one,
  is truthy, so the second conjunct decides.
\<close>

definition callToolElse :: "(AgentState \<Rightarrow> string) \<Rightarrow> AgentState \<Rightarrow> string" where
  "callToolElse elseStmt state =
     (let messages' = messages state;
          lastMessage = (if messages' = [] then None else Some (messages' ! (length messages' - 1)))
      in if (case lastMessage of
               None \<Rightarrow> False
             | Some m \<Rightarrow> (case tool_calls m of None \<Rightarrow> False | Some tcs \<Rightarrow> length tcs > 0))
         then ''CallTool''
         else elseStmt state)"

text \<open>The routing function of the edge out of \<^verbatim>\<open>ToolMessageUpdateState\<close>.\<close>

definition toolMessageUpdateStateEdge :: "AgentState \<Rightarrow> string" where
  "toolMessageUpdateStateEdge state =
     (if sender state = Val ''Patient creater'' then ''DraftResourceApprove''
      else if sender state = Val ''Patient updater'' then ''DraftResourceApprove''
      else if sender state = Val ''Draft resource approver'' then
        (if truthy_bool (resourceApproved state) then ''ApproveResource''
         else if truthy_obj (patientCreate state) then ''PatientCreate'' else ''PatientUpdate'')
      else ''PatientCreate'')"

text \<open>
  The edges \<open>createGraph\<close> adds to the workflow: the node that follows \<open>node\<close> on the
  merged state, \<open>None\<close> where the workflow has no outgoing edge (\<^verbatim>\<open>ApproveResource\<close>).
\<close>

definition START :: string where
  "START = ''__start__''"

definition workflow_edge :: "string \<Rightarrow> AgentState \<Rightarrow> string option" where
  "workflow_edge node state =
     (if node = ''PatientCreate'' then Some (callToolElse (\<lambda>_. ''PatientCreate'') state)
      else if node = ''PatientUpdate'' then Some (callToolElse (\<lambda>_. ''PatientUpdate'') state)
      else if node = ''DraftResourceApprove'' then Some (callToolElse (\<lambda>_. ''DraftResourceApprove'') state)
      else if node = ''CallTool'' then Some ''ToolMessageUpdateState''
      else if node = ''ToolMessageUpdateState'' then Some (toolMessageUpdateStateEdge state)
      else if node = START then Some ''PatientCreate''
      else None)"

text \<open>The nodes of the workflow that run an agent.\<close>

definition agent_nodes :: "string list" where
  "agent_nodes = [''PatientCreate'', ''PatientUpdate'', ''DraftResourceApprove'']"

subsection \<open>The second variant\<close>

definition router :: "AgentState \<Rightarrow> string" where
  "router state =
     (let messages' = messages state;
          lastMessage = (if messages' = [] then None else Some (messages' ! (length messages' - 1)))
      in if (case lastMessage of
               None \<Rightarrow> False
             | Some m \<Rightarrow> (case tool_calls m of None \<Rightarrow> False | Some tcs \<Rightarrow> length tcs > 0))
         then ''call_tool''
         else ''continue'')"

text \<open>
  A conditional edge with a path map goes to the node the map gives for the routing
  function's result; one without goes to the node the function names.
\<close>

definition workflow_edge_v2 :: "string \<Rightarrow> AgentState \<Rightarrow> string option" where
  "workflow_edge_v2 node state =
     (if node = ''patient-create'' then
        map_of [(''continue'', ''resource-approval''), (''call_tool'', ''call_tool'')] (router state)
      else if node = ''patient-update'' then
        map_of [(''continue'', ''resource-approval''), (''call_tool'', ''call_tool'')] (router state)
      else if node = ''resource-approval'' then
        (if truthy_bool (resourceApproved state) then Some ''resource-create''
         else (case sender state of Val s \<Rightarrow> Some s | _ \<Rightarrow> None))
      else if node = ''resource-create'' then
        map_of [(''continue'', ''patient-update''), (''call_tool'', ''call_tool'')] (router state)
      else if node = ''call_tool'' then
        (case sender state of
           Val s \<Rightarrow> map_of [(''PatientUpdate'', ''approve_resource''),
                             (''PatientCreate'', ''approve_resource''),
                             (''ResourceApprove'', ''resource-approval'')] s
         | _ \<Rightarrow> None)
      else if node = START then Some ''patient-create''
      else None)"

text \<open>The nodes of the second variant whose outgoing edge is \<open>router\<close>.\<close>

definition router_nodes_v2 :: "(string \<times> string) list" where
  "router_nodes_v2 = [(''patient-create'', ''resource-approval''),
                      (''patient-update'', ''resource-approval''),
                      (''resource-create'', ''patient-update'')]"

section \<open>The tool dispatcher\<close>

text \<open>
  Modelled from the spec: the tool node is an instance of the graph library's prebuilt
  class, whose code is not under src/; the source only builds it over \<open>tools\<close> and
  registers it as \<^verbatim>\<open>CallTool\<close>. Section 4.3, steps 1 and 2: the requests are those of the
  most recent turn; with no turn or no requests there is nothing to do.
\<close>

definition latest_tool_calls :: "AgentState \<Rightarrow> ToolCall list" where
  "latest_tool_calls s =
     (if messages s = [] then []
      else (case tool_calls (last (messages s)) of None \<Rightarrow> [] | Some tcs \<Rightarrow> tcs))"

text \<open>
  Modelled from the spec: folding a partial update into the batch's accumulated update
  "using the normal channel reducers" (section 4.3, step 5), the tool node's code not
  being under src/. A channel absent from one side takes the other side's entry.
\<close>

definition combine_channel :: "('a \<Rightarrow> 'a \<Rightarrow> 'a) \<Rightarrow> 'a option \<Rightarrow> 'a option \<Rightarrow> 'a option" where
  "combine_channel reducer acc incoming =
     (case incoming of
        None \<Rightarrow> acc
      | Some y \<Rightarrow> (case acc of None \<Rightarrow> Some y | Some x \<Rightarrow> Some (reducer x y)))"

text \<open>Modelled from the spec: the same fold, channel by channel (tool node not under src/).\<close>

definition combine :: "PartialUpdate \<Rightarrow> PartialUpdate \<Rightarrow> PartialUpdate" where
  "combine acc u =
     \<lparr>u_messages = combine_channel messages_reducer (u_messages acc) (u_messages u),
      u_sender = combine_channel sender_reducer (u_sender acc) (u_sender u),
      u_patientCreate = combine_channel patientCreate_reducer (u_patientCreate acc) (u_patientCreate u),
      u_patient = combine_channel patient_reducer (u_patient acc) (u_patient u),
      u_patientUpdate = combine_channel patientUpdate_reducer (u_patientUpdate acc) (u_patientUpdate u),
      u_resourceApproved =
        combine_channel resourceApproved_reducer (u_resourceApproved acc) (u_resourceApproved u)\<rparr>"

text \<open>Modelled from the spec: a result turn, originator "tool" (tool node not under src/).\<close>

definition result_turn :: "string \<Rightarrow> BaseMessage" where
  "result_turn c = \<lparr>msg_type = ToolMessage, content = c, tool_calls = None\<rparr>"

text \<open>
  Modelled from the spec: one request (section 4.3, steps 3 to 5; tool node not under
  src/). The tool is looked up by name; an unknown name gives a failure turn that names
  it, rejected arguments give a failure turn with the validation error, and neither
  changes any channel. Otherwise the handler's partial update comes with a result turn
  whose content is a serialised summary of it (the parameter \<open>summary\<close>).
\<close>

definition dispatch_request ::
  "Tool list \<Rightarrow> (PartialUpdate \<Rightarrow> string) \<Rightarrow> ToolCall \<Rightarrow> PartialUpdate \<times> BaseMessage" where
  "dispatch_request registry summary tc =
     (case find (\<lambda>t. tool_name t = tc_name tc) registry of
        None \<Rightarrow> (no_update, result_turn (''Error: Tool \"'' @ tc_name tc @ ''\" not found.''))
      | Some t \<Rightarrow>
          (case invoke t (tc_args tc) of
             None \<Rightarrow> (no_update,
                       result_turn ''Error: Received tool input did not match expected schema'')
           | Some u \<Rightarrow> (u, result_turn (summary u))))"

text \<open>
  Modelled from the spec: the accumulated update after one more request, its partial
  update folded in and its result turn appended (tool node not under src/).
\<close>

definition fold_request ::
  "Tool list \<Rightarrow> (PartialUpdate \<Rightarrow> string) \<Rightarrow> PartialUpdate \<Rightarrow> ToolCall \<Rightarrow> PartialUpdate" where
  "fold_request registry summary acc tc =
     (case dispatch_request registry summary tc of
        (u, turn) \<Rightarrow> combine (combine acc u) (no_update\<lparr>u_messages := Some [turn]\<rparr>))"

text \<open>
  Modelled from the spec: the dispatcher node (tool node not under src/). The requests
  are processed in the order they appear on the turn; the output is the single partial
  update that combines all of them.
\<close>

definition toolDispatcher ::
  "Tool list \<Rightarrow> (PartialUpdate \<Rightarrow> string) \<Rightarrow> AgentState \<Rightarrow> PartialUpdate" where
  "toolDispatcher registry summary state =
     foldl (fold_request registry summary) no_update (latest_tool_calls state)"

section \<open>The executor\<close>

text \<open>
  Modelled from the spec: the executor that steps a graph is the graph library's and is
  not under src/, which only configures its step budget (\<^verbatim>\<open>recursionLimit: 5\<close> in
  \<^verbatim>\<open>handleSend\<close>). Sections 3 and 6: a graph definition maps each node identifier to
  its body and to a routing function that yields the next node or the end marker
  (\<open>None\<close>); a run ends suspended, completed or failed. Section 7: a node's fatal
  error and the exhausted step budget are different failures.
\<close>

datatype failure = NodeFatalError error | StepLimitExceeded

datatype RunOutcome = Suspended AgentState | Completed AgentState | Failed failure

record 'n GraphDefinition =
  body :: "'n \<Rightarrow> AgentState \<Rightarrow> error + PartialUpdate"
  routing :: "'n \<Rightarrow> AgentState \<Rightarrow> 'n option"
  start :: 'n

text \<open>
  Modelled from the spec: the executor's loop, not under src/. Sections 2 and 5: run
  the active node, merge its output into the state, evaluate the outgoing edge on the
  merged state, and repeat until the end marker; the step budget is the maximum number
  of node executions of one invocation, and needing one more is the fatal step-limit
  failure. Section 4.5: a node that raises the interrupt signal suspends the run with
  the state as of entry to that node. The second component lists the nodes executed,
  in order.
\<close>

fun run :: "'n GraphDefinition \<Rightarrow> nat \<Rightarrow> 'n \<Rightarrow> AgentState \<Rightarrow> RunOutcome \<times> 'n list" where
  "run g 0 n s = (Failed StepLimitExceeded, [])"
| "run g (Suc budget) n s =
     (case body g n s of
        Inl (NodeInterrupt m) \<Rightarrow> (Suspended s, [n])
      | Inl e \<Rightarrow> (Failed (NodeFatalError e), [n])
      | Inr u \<Rightarrow>
          (let s' = merge s u in
           case routing g n s' of
             None \<Rightarrow> (Completed s', [n])
           | Some n' \<Rightarrow>
               (case run g budget n' s' of (outcome, executed) \<Rightarrow> (outcome, n # executed))))"

text \<open>A routing function that always loops a node back to itself.\<close>

definition loop_back :: "'n \<Rightarrow> AgentState \<Rightarrow> 'n option" where
  "loop_back n s = Some n"

section \<open>Notions used in the statements\<close>

text \<open>The most recent message of the history carries at least one tool-call request.\<close>

definition latest_has_tool_calls :: "AgentState \<Rightarrow> bool" where
  "latest_has_tool_calls s =
     (messages s \<noteq> [] \<and> tool_calls (last (messages s)) \<noteq> None
      \<and> tool_calls (last (messages s)) \<noteq> Some [])"

definition is_interrupt :: "error + 'a \<Rightarrow> bool" where
  "is_interrupt r = (case r of Inl (NodeInterrupt m) \<Rightarrow> True | _ \<Rightarrow> False)"

text \<open>
  The state a node that loops back to itself has reached after \<open>k\<close> executions that
  all returned an update; \<open>None\<close> when one of them suspended or failed.
\<close>

fun after_executions :: "'n GraphDefinition \<Rightarrow> 'n \<Rightarrow> nat \<Rightarrow> AgentState \<Rightarrow> AgentState option" where
  "after_executions g n 0 s = Some s"
| "after_executions g n (Suc k) s =
     (case body g n s of Inl e \<Rightarrow> None | Inr u \<Rightarrow> after_executions g n k (merge s u))"

text \<open>The error is the interrupt signal.\<close>

definition interrupt_error :: "error \<Rightarrow> bool" where
  "interrupt_error e = (case e of NodeInterrupt m \<Rightarrow> True | _ \<Rightarrow> False)"

text \<open>
  What one request alone does to a state: its partial update merged, then its result
  turn appended.
\<close>

definition apply_request ::
  "Tool list \<Rightarrow> (PartialUpdate \<Rightarrow> string) \<Rightarrow> AgentState \<Rightarrow> ToolCall \<Rightarrow> AgentState" where
  "apply_request registry summary s tc =
     merge (merge s (fst (dispatch_request registry summary tc)))
       (no_update\<lparr>u_messages := Some [snd (dispatch_request registry summary tc)]\<rparr>)"


text \<open>Sample data for the closed instances below.\<close>

definition ai_msg :: "string \<Rightarrow> ToolCall list \<Rightarrow> BaseMessage" where
  "ai_msg c tcs = \<lparr>msg_type = AIMessage, content = c, tool_calls = Some tcs\<rparr>"

definition human_msg :: "string \<Rightarrow> BaseMessage" where
  "human_msg c = \<lparr>msg_type = HumanMessage, content = c, tool_calls = None\<rparr>"

definition tool_msg :: "string \<Rightarrow> BaseMessage" where
  "tool_msg c = \<lparr>msg_type = ToolMessage, content = c, tool_calls = None\<rparr>"

definition approve_call :: ToolCall where
  "approve_call = \<lparr>tc_name = ''resource_draft'',
     tc_args = JObj [(js ''approved'', JBool True)], tc_id = ''call_1''\<rparr>"

definition sample_patient :: Patient where
  "sample_patient = \<lparr>resourceType = js ''Patient'',
     text_ = \<lparr>status = js ''generated'', div_ = js ''<div>Ada Lovelace</div>''\<rparr>,
     name = [\<lparr>use = js ''official'', family = js ''Lovelace'', given = [js ''Ada'']\<rparr>],
     gender = js ''female'', birthDate = js ''1815-12-10'', id_ = js ''p1''\<rparr>"

definition sample_draft :: PatientCreate where
  "sample_draft = \<lparr>resourceType = js ''Patient'',
     text_ = \<lparr>status = js ''generated'', div_ = js ''<div>Ada Lovelace</div>''\<rparr>,
     name = [\<lparr>use = js ''official'', family = js ''Lovelace'', given = [js ''Ada'']\<rparr>],
     gender = js ''female'', birthDate = js ''1815-12-10''\<rparr>"

definition echo_agent :: agent where
  "echo_agent state = Inr (ai_msg ''What is the patient's name?'' [])"

definition failing_agent :: agent where
  "failing_agent state = Inl ''503 Service Unavailable''"

definition s_tool :: AgentState where
  "s_tool = default_state\<lparr>messages := [human_msg ''hello'', ai_msg [] [approve_call]],
     sender := Val ''Draft resource approver''\<rparr>"

definition s_plain :: AgentState where
  "s_plain = default_state\<lparr>messages := [human_msg ''hello'', ai_msg ''Which name?'' []],
     sender := Val ''Patient creater''\<rparr>"

definition s_update :: AgentState where
  "s_update = default_state\<lparr>messages := [human_msg ''yes, that is right''],
     sender := Val ''Draft resource approver'', patientUpdate := Val sample_patient,
     resourceApproved := Val True\<rparr>"

definition s_create :: AgentState where
  "s_create = default_state\<lparr>messages := [human_msg ''yes, that is right''],
     sender := Val ''Draft resource approver'', patientCreate := Val sample_draft,
     resourceApproved := Val True\<rparr>"

text \<open>
  Two histories that end in a tool message: the serialised result of \<^verbatim>\<open>resource_draft\<close>,
  and the plain-text failure written for a tool name that is not registered.
\<close>

definition s_result :: AgentState where
  "s_result = default_state\<lparr>messages := [human_msg ''yes'', ai_msg [] [approve_call],
       tool_msg ''{\"resourceApproved\":true}''],
     sender := Val ''Draft resource approver''\<rparr>"

definition s_failure :: AgentState where
  "s_failure = default_state\<lparr>messages := [human_msg ''yes'', ai_msg [] [approve_call],
       tool_msg (''Error: Tool \"approve\" not found.'' @ [CHR 0x0A] @ '' Please fix your mistakes.'')],
     sender := Val ''Draft resource approver''\<rparr>"


text \<open>
  Three graphs that loop: one whose node appends a message each time it runs, one whose
  node is the workflow's \<open>patientCreateNode\<close>, and one whose agent is unavailable.
\<close>

definition ticking_graph :: "string GraphDefinition" where
  "ticking_graph = \<lparr>body = (\<lambda>n s. Inr (no_update\<lparr>u_messages := Some [ai_msg ''tick'' []]\<rparr>)),
     routing = loop_back, start = ''Tick''\<rparr>"

definition self_talk_graph :: "string GraphDefinition" where
  "self_talk_graph = \<lparr>body = (\<lambda>n. patientCreateNode echo_agent),
     routing = loop_back, start = ''PatientCreate''\<rparr>"

definition failing_graph :: "string GraphDefinition" where
  "failing_graph = \<lparr>body = (\<lambda>n. patientCreateNode failing_agent),
     routing = loop_back, start = ''PatientCreate''\<rparr>"

text \<open>A graph with the workflow's edges whose nodes change nothing.\<close>

definition idle_workflow :: "string GraphDefinition" where
  "idle_workflow = \<lparr>body = (\<lambda>n s. Inr no_update), routing = workflow_edge, start = START\<rparr>"

text \<open>
  A turn with three requests: an approval, a tool name that is not registered, and the
  creation of a patient.
\<close>

definition ok_summary :: "PartialUpdate \<Rightarrow> string" where
  "ok_summary u = ''ok''"

definition draft_args :: jsval where
  "draft_args = JObj [(js ''resourceType'', JStr (js ''Patient'')),
     (js ''text'', JObj [(js ''status'', JStr (js ''generated'')),
                         (js ''div'', JStr (js ''<div>Ada Lovelace</div>''))]),
     (js ''name'', JArr [JObj [(js ''use'', JStr (js ''official'')),
                               (js ''family'', JStr (js ''Lovelace'')),
                               (js ''given'', JArr [JStr (js ''Ada'')])]]),
     (js ''gender'', JStr (js ''female'')),
     (js ''birthDate'', JStr (js ''1815-12-10''))]"

definition unknown_call :: ToolCall where
  "unknown_call = \<lparr>tc_name = ''approve'', tc_args = JObj [], tc_id = ''call_2''\<rparr>"

definition create_call :: ToolCall where
  "create_call = \<lparr>tc_name = ''patient_create'', tc_args = draft_args, tc_id = ''call_3''\<rparr>"

definition s_batch :: AgentState where
  "s_batch = default_state\<lparr>messages := [human_msg ''yes'',
       ai_msg [] [approve_call, unknown_call, create_call]],
     sender := Val ''Draft resource approver''\<rparr>"

text \<open>The second variant: the approval agent has just asked for a tool.\<close>

definition s_approval_v2 :: AgentState where
  "s_approval_v2 = default_state\<lparr>messages := [human_msg ''yes'', ai_msg [] [approve_call]],
     sender := Val ''resource-approval''\<rparr>"



section \<open>Routing on tool calls\<close>

lemma last_index: "xs \<noteq> [] \<Longrightarrow> xs ! (length xs - Suc 0) = last xs"
  by (simp add: last_conv_nth)

lemma callToolElse_eq:
  "callToolElse elseStmt s = (if latest_has_tool_calls s then ''CallTool'' else elseStmt s)"
  by (auto simp: callToolElse_def latest_has_tool_calls_def Let_def last_index split: option.splits)

lemma router_eq:
  "router s = (if latest_has_tool_calls s then ''call_tool'' else ''continue'')"
  by (auto simp: router_def latest_has_tool_calls_def Let_def last_index split: option.splits)

text \<open>
  C1 as stated, refuted: in the second variant the edge out of the agent node
  \<^verbatim>\<open>resource-approval\<close> is not \<open>router\<close> but a function of the approval flag and the
  sender. On a state whose latest message carries a tool-call request it does not lead
  to \<^verbatim>\<open>call_tool\<close>.
\<close>

theorem tool_call_precedence_counterexample:
  "latest_has_tool_calls s_approval_v2
   \<and> workflow_edge_v2 ''resource-approval'' s_approval_v2 = Some ''resource-approval''
   \<and> workflow_edge_v2 ''resource-approval'' s_approval_v2 \<noteq> Some ''call_tool''"
  by (simp add: latest_has_tool_calls_def s_approval_v2_def ai_msg_def human_msg_def
        workflow_edge_v2_def default_state_def truthy_bool_def)

text \<open>
  C1, amended (tool-call precedence). When the most recent message of the history
  carries at least one tool-call request, \<open>callToolElse\<close> returns \<^verbatim>\<open>CallTool\<close> whatever
  the domain routing function \<open>elseStmt\<close> would return, and \<open>router\<close> returns
  \<^verbatim>\<open>call_tool\<close>; so the edge out of every agent node of the first variant, and out of
  every node of the second variant that \<open>router\<close> is attached to (\<^verbatim>\<open>patient-create\<close>,
  \<^verbatim>\<open>patient-update\<close>, \<^verbatim>\<open>resource-create\<close>), leads to the tool node. When it carries
  none (or the history is empty), the domain routing function's result is used: each
  agent node of the first variant is followed by itself, each \<open>router\<close> node of the
  second by the target of \<^verbatim>\<open>continue\<close>.
\<close>

theorem tool_call_precedence:
  "(latest_has_tool_calls s \<longrightarrow>
      callToolElse elseStmt s = ''CallTool'' \<and> router s = ''call_tool''
      \<and> (\<forall>n \<in> set agent_nodes. workflow_edge n s = Some ''CallTool'')
      \<and> (\<forall>(n, d) \<in> set router_nodes_v2. workflow_edge_v2 n s = Some ''call_tool''))
   \<and> (\<not> latest_has_tool_calls s \<longrightarrow>
      callToolElse elseStmt s = elseStmt s \<and> router s = ''continue''
      \<and> (\<forall>n \<in> set agent_nodes. workflow_edge n s = Some n)
      \<and> (\<forall>(n, d) \<in> set router_nodes_v2. workflow_edge_v2 n s = Some d))"
  by (simp add: callToolElse_eq router_eq agent_nodes_def router_nodes_v2_def
        workflow_edge_def workflow_edge_v2_def)

theorem tool_call_precedence_witness:
  "latest_has_tool_calls s_tool
   \<and> callToolElse (\<lambda>_. ''PatientCreate'') s_tool = ''CallTool''
   \<and> workflow_edge ''DraftResourceApprove'' s_tool = Some ''CallTool''
   \<and> workflow_edge_v2 ''patient-create'' s_tool = Some ''call_tool''
   \<and> \<not> latest_has_tool_calls s_plain
   \<and> callToolElse (\<lambda>_. ''PatientCreate'') s_plain = ''PatientCreate''
   \<and> workflow_edge ''PatientUpdate'' s_plain = Some ''PatientUpdate''
   \<and> workflow_edge_v2 ''resource-create'' s_plain = Some ''patient-update''"
proof -
  have a: "latest_has_tool_calls s_tool"
    by (simp add: latest_has_tool_calls_def s_tool_def ai_msg_def human_msg_def)
  have b: "\<not> latest_has_tool_calls s_plain"
    by (simp add: latest_has_tool_calls_def s_plain_def ai_msg_def human_msg_def)
  from a tool_call_precedence [of s_tool "\<lambda>_. ''PatientCreate''"]
  have c: "callToolElse (\<lambda>_. ''PatientCreate'') s_tool = ''CallTool''"
    "\<forall>n \<in> set agent_nodes. workflow_edge n s_tool = Some ''CallTool''"
    "\<forall>(n, d) \<in> set router_nodes_v2. workflow_edge_v2 n s_tool = Some ''call_tool''"
    by blast+
  from b tool_call_precedence [of s_plain "\<lambda>_. ''PatientCreate''"]
  have d: "callToolElse (\<lambda>_. ''PatientCreate'') s_plain = ''PatientCreate''"
    "\<forall>n \<in> set agent_nodes. workflow_edge n s_plain = Some n"
    "\<forall>(n, d) \<in> set router_nodes_v2. workflow_edge_v2 n s_plain = Some d"
    by blast+
  from c(2) have c2: "workflow_edge ''DraftResourceApprove'' s_tool = Some ''CallTool''"
    by (simp add: agent_nodes_def)
  from c(3) have c3: "workflow_edge_v2 ''patient-create'' s_tool = Some ''call_tool''"
    by (simp add: router_nodes_v2_def)
  from d(2) have d2: "workflow_edge ''PatientUpdate'' s_plain = Some ''PatientUpdate''"
    by (simp add: agent_nodes_def)
  from d(3) have d3: "workflow_edge_v2 ''resource-create'' s_plain = Some ''patient-update''"
    by (simp add: router_nodes_v2_def)
  from a b c(1) d(1) c2 c3 d2 d3 show ?thesis by simp
qed

text \<open>
  The edge out of the second variant's \<^verbatim>\<open>resource-approval\<close> node is not \<open>router\<close>: it
  looks at the approval flag and the sender only.
\<close>

lemma resource_approval_edge_v2:
  "workflow_edge_v2 ''resource-approval'' s =
     (if truthy_bool (resourceApproved s) then Some ''resource-create''
      else (case sender s of Val n \<Rightarrow> Some n | _ \<Rightarrow> None))"
  by (simp add: workflow_edge_v2_def)

section \<open>Suspension\<close>

text \<open>
  C2 (suspend on self-talk). \<open>runAgentNode\<close> throws \<^verbatim>\<open>NodeInterrupt\<close> exactly when the
  state's sender is the node's own agent name, and then the agent is not invoked (the
  outcome is the same for any agent). Otherwise the agent is invoked: its failure is
  passed on, and its message \<open>m\<close> comes back in an update that appends \<open>m\<close> to the
  history and sets the sender to the node's name. The three agent nodes of the
  workflow suspend exactly on their own names.
\<close>

theorem suspend_on_self_talk:
  "is_interrupt (runAgentNode s agent n) = (sender s = Val n)
   \<and> (sender s = Val n \<longrightarrow>
        runAgentNode s agent n = Inl (NodeInterrupt ''Wait for user input'')
        \<and> runAgentNode s agent n = runAgentNode s other_agent n)
   \<and> (sender s \<noteq> Val n \<longrightarrow>
        (\<forall>e. agent s = Inl e \<longrightarrow> runAgentNode s agent n = Inl (AgentError e))
        \<and> (\<forall>m. agent s = Inr m \<longrightarrow>
              (\<exists>u. runAgentNode s agent n = Inr u \<and> u_messages u = Some [m]
                    \<and> u_sender u = Some (Val n)
                    \<and> messages (merge s u) = messages s @ [m]
                    \<and> sender (merge s u) = Val n)))
   \<and> is_interrupt (patientCreateNode agent s) = (sender s = Val ''Patient creater'')
   \<and> is_interrupt (patientUpdateNode agent s) = (sender s = Val ''Patient updater'')
   \<and> is_interrupt (draftResourceApproveNode prompt agent s) = (sender s = Val ''Draft resource approver'')"
  by (auto simp: runAgentNode_def is_interrupt_def patientCreateNode_def patientUpdateNode_def
        draftResourceApproveNode_def merge_def messages_reducer_def sender_reducer_def nullish_def
        split: sum.splits)

theorem suspend_on_self_talk_witness:
  "sender s_plain = Val ''Patient creater''
   \<and> runAgentNode s_plain echo_agent ''Patient creater'' = Inl (NodeInterrupt ''Wait for user input'')
   \<and> runAgentNode s_plain echo_agent ''Patient creater'' = runAgentNode s_plain failing_agent ''Patient creater''
   \<and> sender s_tool \<noteq> Val ''Patient creater''
   \<and> failing_agent s_tool = Inl ''503 Service Unavailable''
   \<and> runAgentNode s_tool failing_agent ''Patient creater'' = Inl (AgentError ''503 Service Unavailable'')
   \<and> echo_agent s_tool = Inr (ai_msg ''What is the patient's name?'' [])
   \<and> (\<exists>u. runAgentNode s_tool echo_agent ''Patient creater'' = Inr u
          \<and> messages (merge s_tool u) = messages s_tool @ [ai_msg ''What is the patient's name?'' []]
          \<and> sender (merge s_tool u) = Val ''Patient creater'')"
proof -
  have a: "sender s_plain = Val ''Patient creater''"
    by (simp add: s_plain_def)
  have b: "sender s_tool \<noteq> Val ''Patient creater''"
    by (simp add: s_tool_def)
  have c: "failing_agent s_tool = Inl ''503 Service Unavailable''"
    by (simp add: failing_agent_def)
  have d: "echo_agent s_tool = Inr (ai_msg ''What is the patient's name?'' [])"
    by (simp add: echo_agent_def)
  from a suspend_on_self_talk [of s_plain echo_agent "''Patient creater''" failing_agent]
  have e: "runAgentNode s_plain echo_agent ''Patient creater'' = Inl (NodeInterrupt ''Wait for user input'')"
    "runAgentNode s_plain echo_agent ''Patient creater'' = runAgentNode s_plain failing_agent ''Patient creater''"
    by blast+
  from b c suspend_on_self_talk [of s_tool failing_agent "''Patient creater''"]
  have f: "runAgentNode s_tool failing_agent ''Patient creater'' = Inl (AgentError ''503 Service Unavailable'')"
    by blast
  from b d suspend_on_self_talk [of s_tool echo_agent "''Patient creater''"]
  have g: "\<exists>u. runAgentNode s_tool echo_agent ''Patient creater'' = Inr u
          \<and> messages (merge s_tool u) = messages s_tool @ [ai_msg ''What is the patient's name?'' []]
          \<and> sender (merge s_tool u) = Val ''Patient creater''"
    by blast
  from a b c d e f g show ?thesis by simp
qed

section \<open>Reducers\<close>

lemma merge_messages:
  "messages (merge s u) = (case u_messages u of None \<Rightarrow> messages s | Some y \<Rightarrow> messages s @ y)"
  by (simp add: merge_def messages_reducer_def split: option.splits)

lemma foldl_merge_prefix: "\<exists>ys. messages (foldl merge s us) = messages s @ ys"
proof (induction us arbitrary: s)
  case Nil
  show ?case by simp
next
  case (Cons u us)
  obtain ys where ys: "messages (foldl merge (merge s u) us) = messages (merge s u) @ ys"
    using Cons.IH by blast
  obtain zs where zs: "messages (merge s u) = messages s @ zs"
    by (cases "u_messages u") (simp_all add: merge_messages)
  show ?case using ys zs by simp
qed

text \<open>
  C3 (append-only history). The reducer of \<open>messages\<close> returns the old list followed by
  the incoming one, and a merge changes the history in no other way. Hence after any
  sequence \<open>us\<close> of merged updates the history is at least as long as before, it starts
  with the old history, and every old index holds the message it held.
\<close>

theorem append_only_history:
  "messages_reducer old incoming = old @ incoming
   \<and> messages (merge s u) = (case u_messages u of None \<Rightarrow> messages s | Some y \<Rightarrow> messages s @ y)
   \<and> length (messages s) \<le> length (messages (foldl merge s us))
   \<and> take (length (messages s)) (messages (foldl merge s us)) = messages s
   \<and> (\<forall>i < length (messages s). messages (foldl merge s us) ! i = messages s ! i)"
proof -
  obtain ys where ys: "messages (foldl merge s us) = messages s @ ys"
    using foldl_merge_prefix by blast
  show ?thesis
    by (simp add: messages_reducer_def merge_messages ys nth_append)
qed

theorem append_only_history_witness:
  "(0::nat) < length (messages s_plain)
   \<and> length (messages (foldl merge s_plain
        [no_update\<lparr>u_messages := Some [human_msg ''Ada Lovelace'']\<rparr>, approveResourceNode s_plain])) = 3
   \<and> messages (foldl merge s_plain
        [no_update\<lparr>u_messages := Some [human_msg ''Ada Lovelace'']\<rparr>, approveResourceNode s_plain]) ! 0
      = human_msg ''hello''"
proof -
  let ?us = "[no_update\<lparr>u_messages := Some [human_msg ''Ada Lovelace'']\<rparr>, approveResourceNode s_plain]"
  have a: "(0::nat) < length (messages s_plain)"
    by (simp add: s_plain_def)
  have b: "messages (foldl merge s_plain ?us) ! 0 = messages s_plain ! 0"
    using append_only_history [of "[]" "[]" s_plain no_update ?us] a by blast
  have c: "messages s_plain ! 0 = human_msg ''hello''"
    by (simp add: s_plain_def)
  have d: "length (messages (foldl merge s_plain ?us)) = 3"
    by (simp add: merge_messages no_update_def approveResourceNode_def s_plain_def)
  from a b c d show ?thesis by simp
qed

text \<open>
  C4 as stated, refuted: the reducer of \<open>sender\<close> is \<^verbatim>\<open>(x, y) => y ?? x\<close>, so an incoming
  \<^verbatim>\<open>null\<close> or \<^verbatim>\<open>undefined\<close> does not win; the old sender stays.
\<close>

theorem replace_or_clear_counterexample:
  "sender_reducer (Val ''Patient creater'') Null \<noteq> Null
   \<and> sender_reducer (Val ''Patient creater'') Undefined \<noteq> Undefined"
  by (simp add: sender_reducer_def nullish_def)

text \<open>
  C4, amended (replace-or-clear reducers). The reducers of \<open>patientCreate\<close>, \<open>patient\<close>,
  \<open>patientUpdate\<close> and \<open>resourceApproved\<close> return the incoming value for every pair,
  null and undefined included, so a node can null out any of these channels. The
  reducer of \<open>sender\<close> returns the incoming value when that is a string, and the old
  value when the incoming one is null or undefined: a node cannot null out the sender.
\<close>

theorem replace_or_clear_reducers:
  "patientCreate_reducer x1 y1 = y1
   \<and> patient_reducer x2 y2 = y2
   \<and> patientUpdate_reducer x3 y3 = y3
   \<and> resourceApproved_reducer x4 y4 = y4
   \<and> sender_reducer x (Val v) = Val v
   \<and> sender_reducer x Null = x
   \<and> sender_reducer x Undefined = x
   \<and> patientCreate (merge s (no_update\<lparr>u_patientCreate := Some Null\<rparr>)) = Null
   \<and> patient (merge s (no_update\<lparr>u_patient := Some Null\<rparr>)) = Null
   \<and> patientUpdate (merge s (no_update\<lparr>u_patientUpdate := Some Null\<rparr>)) = Null
   \<and> resourceApproved (merge s (no_update\<lparr>u_resourceApproved := Some Null\<rparr>)) = Null
   \<and> sender (merge s (no_update\<lparr>u_sender := Some Null\<rparr>)) = sender s"
  by (simp add: patientCreate_reducer_def patient_reducer_def patientUpdate_reducer_def
        resourceApproved_reducer_def sender_reducer_def nullish_def merge_def no_update_def)

text \<open>The second variant's reducer of \<open>sender\<close> keeps the old value in the same way.\<close>

lemma sender_reducer_v2_keeps_old:
  "sender_reducer_v2 x (Val v) = Val v \<and> sender_reducer_v2 (Val a) Null = Val a
   \<and> sender_reducer_v2 Null Null = Val ''user''"
  by (simp add: sender_reducer_v2_def nullish_def)

section \<open>Approval\<close>

text \<open>
  C8 (\<open>approveResourceNode\<close>). For every state the node's update sets \<open>patient\<close> to the
  current \<open>patientUpdate\<close> and clears \<open>patientCreate\<close>, \<open>patientUpdate\<close> and
  \<open>resourceApproved\<close> to null. \<open>patientCreate\<close> is never read: on the creation path
  (\<open>patientUpdate\<close> null, \<open>patientCreate\<close> a draft) the promoted \<open>patient\<close> is null and
  the approved draft is discarded.
\<close>

theorem approveResourceNode_promotes_patientUpdate:
  "u_patient (approveResourceNode s) = Some (patientUpdate s)
   \<and> u_patientCreate (approveResourceNode s) = Some Null
   \<and> u_patientUpdate (approveResourceNode s) = Some Null
   \<and> u_resourceApproved (approveResourceNode s) = Some Null
   \<and> patient (merge s (approveResourceNode s)) = patientUpdate s
   \<and> patientCreate (merge s (approveResourceNode s)) = Null
   \<and> patientUpdate (merge s (approveResourceNode s)) = Null
   \<and> resourceApproved (merge s (approveResourceNode s)) = Null
   \<and> approveResourceNode (s\<lparr>patientCreate := other\<rparr>) = approveResourceNode s
   \<and> (patientUpdate s = Null \<and> patientCreate s = Val draft \<longrightarrow>
        u_patient (approveResourceNode s) = Some Null
        \<and> patient (merge s (approveResourceNode s)) = Null
        \<and> patientCreate (merge s (approveResourceNode s)) = Null)"
  by (simp add: approveResourceNode_def merge_def patientCreate_reducer_def patient_reducer_def
        patientUpdate_reducer_def resourceApproved_reducer_def)

theorem approveResourceNode_promotes_patientUpdate_witness:
  "patientUpdate s_create = Null \<and> patientCreate s_create = Val sample_draft
   \<and> workflow_edge ''ToolMessageUpdateState'' s_create = Some ''ApproveResource''
   \<and> patient (merge s_create (approveResourceNode s_create)) = Null
   \<and> patientCreate (merge s_create (approveResourceNode s_create)) = Null
   \<and> patient (merge s_update (approveResourceNode s_update)) = Val sample_patient"
proof -
  have a: "patientUpdate s_create = Null \<and> patientCreate s_create = Val sample_draft"
    by (simp add: s_create_def default_state_def)
  have b: "workflow_edge ''ToolMessageUpdateState'' s_create = Some ''ApproveResource''"
    by (simp add: workflow_edge_def toolMessageUpdateStateEdge_def s_create_def truthy_bool_def)
  from a approveResourceNode_promotes_patientUpdate [of s_create _ sample_draft]
  have c: "patient (merge s_create (approveResourceNode s_create)) = Null
     \<and> patientCreate (merge s_create (approveResourceNode s_create)) = Null"
    by blast
  from approveResourceNode_promotes_patientUpdate [of s_update]
  have d: "patient (merge s_update (approveResourceNode s_update)) = patientUpdate s_update"
    by blast
  have e: "patientUpdate s_update = Val sample_patient"
    by (simp add: s_update_def)
  from a b c d e show ?thesis by simp
qed

section \<open>Applying tool results\<close>

text \<open>No JSON text begins with the letter E: such a content is a syntax error.\<close>

lemma JSON_parse_Error: "JSON_parse (''Error: '' @ tail) = None"
  by (simp add: JSON_parse_def lex_step_def ready_step_def is_ws_def is_digit_def)

lemma JSON_parse_approved:
  "JSON_parse ''{\"resourceApproved\":true}'' = Some (JObj [(js ''resourceApproved'', JBool True)])"
  by (simp add: JSON_parse_def lex_step_def ready_step_def lex_end_def is_ws_def is_digit_def
        js_def parse_step_def begin_value_def push_value_def set_key_def close_object_def)

text \<open>
  C9 (\<open>toolMessageUpdateStateNode\<close>). On a non-empty history the node returns what
  \<^verbatim>\<open>JSON.parse\<close> makes of the last message's content: it returns a value \<open>v\<close> exactly
  when that content is valid JSON that parses to \<open>v\<close>, and it throws (a
  \<^verbatim>\<open>SyntaxError\<close>) whenever the content is not valid JSON, in particular for every
  plain-text content that starts with \<^verbatim>\<open>Error: \<close>, as the failure messages for an
  unknown tool or a rejected input do. On an empty history it throws too.
\<close>

theorem toolMessageUpdateStateNode_parses_last:
  "(toolMessageUpdateStateNode s = Inr v)
     = (messages s \<noteq> [] \<and> JSON_parse (content (last (messages s))) = Some v)
   \<and> (messages s \<noteq> [] \<and> JSON_parse (content (last (messages s))) = None \<longrightarrow>
        toolMessageUpdateStateNode s = Inl SyntaxError)
   \<and> (messages s \<noteq> [] \<and> content (last (messages s)) = ''Error: '' @ tail \<longrightarrow>
        toolMessageUpdateStateNode s = Inl SyntaxError)
   \<and> (messages s = [] \<longrightarrow> toolMessageUpdateStateNode s = Inl TypeError)"
proof -
  have a: "(toolMessageUpdateStateNode s = Inr v)
     = (messages s \<noteq> [] \<and> JSON_parse (content (last (messages s))) = Some v)"
    by (auto simp: toolMessageUpdateStateNode_def Let_def last_index split: option.splits)
  have b: "messages s \<noteq> [] \<and> JSON_parse (content (last (messages s))) = None \<longrightarrow>
        toolMessageUpdateStateNode s = Inl SyntaxError"
    by (simp add: toolMessageUpdateStateNode_def Let_def last_index)
  have c: "messages s \<noteq> [] \<and> content (last (messages s)) = ''Error: '' @ tail \<longrightarrow>
        toolMessageUpdateStateNode s = Inl SyntaxError"
  proof (intro impI, elim conjE)
    assume h1: "messages s \<noteq> []" and h2: "content (last (messages s)) = ''Error: '' @ tail"
    have "JSON_parse (content (last (messages s))) = None"
      unfolding h2 by (rule JSON_parse_Error)
    with h1 b show "toolMessageUpdateStateNode s = Inl SyntaxError"
      by blast
  qed
  have d: "messages s = [] \<longrightarrow> toolMessageUpdateStateNode s = Inl TypeError"
    by (simp add: toolMessageUpdateStateNode_def)
  from a b c d show ?thesis
    by blast
qed

theorem toolMessageUpdateStateNode_parses_last_witness:
  "messages s_failure \<noteq> []
   \<and> content (last (messages s_failure))
       = ''Error: '' @ ''Tool \"approve\" not found.'' @ [CHR 0x0A] @ '' Please fix your mistakes.''
   \<and> JSON_parse (content (last (messages s_failure))) = None
   \<and> toolMessageUpdateStateNode s_failure = Inl SyntaxError
   \<and> messages s_result \<noteq> []
   \<and> JSON_parse (content (last (messages s_result))) = Some (JObj [(js ''resourceApproved'', JBool True)])
   \<and> toolMessageUpdateStateNode s_result = Inr (JObj [(js ''resourceApproved'', JBool True)])
   \<and> messages default_state = []
   \<and> toolMessageUpdateStateNode default_state = Inl TypeError"
proof -
  let ?tail = "''Tool \"approve\" not found.'' @ [CHR 0x0A] @ '' Please fix your mistakes.''"
  let ?v = "JObj [(js ''resourceApproved'', JBool True)]"
  have a: "messages s_failure \<noteq> [] \<and> content (last (messages s_failure)) = ''Error: '' @ ?tail"
    by (simp add: s_failure_def tool_msg_def)
  have b: "messages s_result \<noteq> [] \<and> JSON_parse (content (last (messages s_result))) = Some ?v"
    using JSON_parse_approved by (simp add: s_result_def tool_msg_def)
  have c: "messages default_state = []"
    by (simp add: default_state_def)
  from a have n: "JSON_parse (content (last (messages s_failure))) = None"
    by (simp only: JSON_parse_Error)
  from a toolMessageUpdateStateNode_parses_last [of s_failure _ ?tail]
  have d: "toolMessageUpdateStateNode s_failure = Inl SyntaxError"
    by blast
  from a n toolMessageUpdateStateNode_parses_last [of s_failure]
  have d': "toolMessageUpdateStateNode s_failure = Inl SyntaxError"
    by blast
  from b toolMessageUpdateStateNode_parses_last [of s_result ?v]
  have e: "toolMessageUpdateStateNode s_result = Inr ?v"
    by blast
  from c toolMessageUpdateStateNode_parses_last [of default_state]
  have f: "toolMessageUpdateStateNode default_state = Inl TypeError"
    by blast
  from a b c n d e f show ?thesis by simp
qed

section \<open>The step budget\<close>

lemma run_length: "length (snd (run g budget n s)) \<le> budget"
proof (induction budget arbitrary: n s)
  case 0
  show ?case by simp
next
  case (Suc budget)
  show ?case
  proof (cases "body g n s")
    case (Inl e)
    then show ?thesis by (cases e) simp_all
  next
    case (Inr u)
    show ?thesis
    proof (cases "routing g n (merge s u)")
      case None
      with Inr show ?thesis by simp
    next
      case (Some n')
      from Suc.IH [of n' "merge s u"] Inr Some show ?thesis
        by (simp add: split_beta Let_def)
    qed
  qed
qed

lemma run_self_loop:
  assumes loop: "\<forall>s. routing g n s = Some n"
    and returns: "\<forall>s. \<exists>u. body g n s = Inr u"
  shows "run g budget n s = (Failed StepLimitExceeded, replicate budget n)"
proof (induction budget arbitrary: s)
  case 0
  show ?case by simp
next
  case (Suc budget)
  obtain u where u: "body g n s = Inr u"
    using returns by blast
  have r: "routing g n (merge s u) = Some n"
    using loop by blast
  show ?case
    by (simp add: u r Suc.IH)
qed

lemma run_self_loop_never_completes:
  assumes loop: "\<forall>s. routing g n s = Some n"
  shows "fst (run g budget n s) \<noteq> Completed s'"
proof (induction budget arbitrary: s)
  case 0
  show ?case by simp
next
  case (Suc budget)
  show ?case
  proof (cases "body g n s")
    case (Inl e)
    then show ?thesis by (cases e) simp_all
  next
    case (Inr u)
    have r: "routing g n (merge s u) = Some n"
      using loop by blast
    from Suc.IH [of "merge s u"] show ?thesis
      by (simp add: Inr r split_beta Let_def)
  qed
qed

lemma run_first_suspends:
  "body g n s = Inl (NodeInterrupt m) \<Longrightarrow> run g (Suc b) n s = (Suspended s, [n])"
  by simp

lemma run_first_fails:
  "body g n s = Inl e \<Longrightarrow> \<not> interrupt_error e \<Longrightarrow> run g (Suc b) n s = (Failed (NodeFatalError e), [n])"
  by (cases e) (simp_all add: interrupt_error_def)

lemma run_limit_length:
  "fst (run g budget n s) = Failed StepLimitExceeded \<Longrightarrow> length (snd (run g budget n s)) = budget"
proof (induction budget arbitrary: n s)
  case 0
  show ?case by simp
next
  case (Suc budget)
  show ?case
  proof (cases "body g n s")
    case (Inl e)
    with Suc.prems show ?thesis by (cases e) simp_all
  next
    case (Inr u)
    show ?thesis
    proof (cases "routing g n (merge s u)")
      case None
      with Inr Suc.prems show ?thesis by simp
    next
      case (Some n')
      from Inr Some Suc.prems have "fst (run g budget n' (merge s u)) = Failed StepLimitExceeded"
        by (simp add: split_beta Let_def)
      from Suc.IH [OF this] Inr Some show ?thesis
        by (simp add: split_beta Let_def)
    qed
  qed
qed

lemma run_fatal_origin:
  "fst (run g budget n s) = Failed (NodeFatalError e) \<Longrightarrow>
   snd (run g budget n s) \<noteq> [] \<and> \<not> interrupt_error e
   \<and> (\<exists>s1. body g (last (snd (run g budget n s))) s1 = Inl e)"
proof (induction budget arbitrary: n s)
  case 0
  then show ?case by simp
next
  case (Suc budget)
  show ?case
  proof (cases "body g n s")
    case (Inl e0)
    with Suc.prems show ?thesis
      by (cases e0) (auto simp: interrupt_error_def)
  next
    case (Inr u)
    show ?thesis
    proof (cases "routing g n (merge s u)")
      case None
      with Inr Suc.prems show ?thesis by simp
    next
      case (Some n')
      from Inr Some Suc.prems have "fst (run g budget n' (merge s u)) = Failed (NodeFatalError e)"
        by (simp add: split_beta Let_def)
      from Suc.IH [OF this] Inr Some show ?thesis
        by (simp add: split_beta Let_def)
    qed
  qed
qed

lemma run_suspended_origin:
  "fst (run g budget n s) = Suspended s2 \<Longrightarrow>
   snd (run g budget n s) \<noteq> []
   \<and> (\<exists>m. body g (last (snd (run g budget n s))) s2 = Inl (NodeInterrupt m))"
proof (induction budget arbitrary: n s)
  case 0
  then show ?case by simp
next
  case (Suc budget)
  show ?case
  proof (cases "body g n s")
    case (Inl e0)
    with Suc.prems show ?thesis
      by (cases e0) auto
  next
    case (Inr u)
    show ?thesis
    proof (cases "routing g n (merge s u)")
      case None
      with Inr Suc.prems show ?thesis by simp
    next
      case (Some n')
      from Inr Some Suc.prems have "fst (run g budget n' (merge s u)) = Suspended s2"
        by (simp add: split_beta Let_def)
      from Suc.IH [OF this] Inr Some show ?thesis
        by (simp add: split_beta Let_def)
    qed
  qed
qed

lemma run_loop_limit_iff:
  assumes loop: "\<forall>s. routing g n s = Some n"
  shows "(fst (run g budget n s) = Failed StepLimitExceeded) = (after_executions g n budget s \<noteq> None)"
proof (induction budget arbitrary: s)
  case 0
  show ?case by simp
next
  case (Suc budget)
  show ?case
  proof (cases "body g n s")
    case (Inl e)
    then show ?thesis by (cases e) simp_all
  next
    case (Inr u)
    have r: "routing g n (merge s u) = Some n"
      using loop by blast
    from Suc.IH [of "merge s u"] show ?thesis
      by (simp add: Inr r split_beta Let_def)
  qed
qed

lemma run_loop_limit:
  assumes loop: "\<forall>s. routing g n s = Some n"
  shows "after_executions g n budget s \<noteq> None \<Longrightarrow>
         run g budget n s = (Failed StepLimitExceeded, replicate budget n)"
proof (induction budget arbitrary: s)
  case 0
  show ?case by simp
next
  case (Suc budget)
  show ?case
  proof (cases "body g n s")
    case (Inl e)
    with Suc.prems show ?thesis by simp
  next
    case (Inr u)
    have r: "routing g n (merge s u) = Some n"
      using loop by blast
    from Suc.prems Inr have "after_executions g n budget (merge s u) \<noteq> None"
      by simp
    from Suc.IH [OF this] show ?thesis
      by (simp add: Inr r)
  qed
qed

lemma run_loop_stops:
  assumes loop: "\<forall>s. routing g n s = Some n"
  shows "k < budget \<Longrightarrow> after_executions g n k s = Some sk \<Longrightarrow> body g n sk = Inl e \<Longrightarrow>
         run g budget n s =
           ((case e of NodeInterrupt m \<Rightarrow> Suspended sk | _ \<Rightarrow> Failed (NodeFatalError e)),
            replicate (Suc k) n)"
proof (induction k arbitrary: s budget)
  case 0
  then obtain b where b: "budget = Suc b"
    by (cases budget) simp_all
  from 0 have "sk = s" by simp
  with 0 b show ?case by (cases e) simp_all
next
  case (Suc k)
  then obtain b where b: "budget = Suc b" and kb: "k < b"
    by (cases budget) simp_all
  from Suc.prems(2) obtain u where u: "body g n s = Inr u"
    and a: "after_executions g n k (merge s u) = Some sk"
    by (cases "body g n s") simp_all
  have r: "routing g n (merge s u) = Some n"
    using loop by blast
  from Suc.IH [OF kb a Suc.prems(3)] show ?case
    by (simp add: b u r)
qed

lemma run_loop_suspends:
  assumes "\<forall>s. routing g n s = Some n" "k < budget" "after_executions g n k s = Some sk"
    "body g n sk = Inl (NodeInterrupt m)"
  shows "run g budget n s = (Suspended sk, replicate (Suc k) n)"
  using run_loop_stops [OF assms] by simp

lemma run_loop_fails:
  assumes "\<forall>s. routing g n s = Some n" "k < budget" "after_executions g n k s = Some sk"
    "body g n sk = Inl e" "\<not> interrupt_error e"
  shows "run g budget n s = (Failed (NodeFatalError e), replicate (Suc k) n)"
  using run_loop_stops [OF assms(1-4)] assms(5) by (cases e) (simp_all add: interrupt_error_def)


lemma self_talk_loops: "\<forall>s. routing self_talk_graph ''PatientCreate'' s = Some ''PatientCreate''"
  by (simp add: self_talk_graph_def loop_back_def)

lemma self_talk_first:
  "after_executions self_talk_graph ''PatientCreate'' 1 default_state
     = Some (default_state\<lparr>messages := [ai_msg ''What is the patient's name?'' []],
               sender := Val ''Patient creater''\<rparr>)"
  by (simp add: self_talk_graph_def patientCreateNode_def
        runAgentNode_def default_state_def echo_agent_def merge_def messages_reducer_def
        sender_reducer_def nullish_def patientCreate_reducer_def patient_reducer_def
        patientUpdate_reducer_def resourceApproved_reducer_def)

lemma self_talk_second:
  "body self_talk_graph ''PatientCreate''
     (default_state\<lparr>messages := [ai_msg ''What is the patient's name?'' []],
        sender := Val ''Patient creater''\<rparr>)
     = Inl (NodeInterrupt ''Wait for user input'')"
  by (simp add: self_talk_graph_def patientCreateNode_def runAgentNode_def)

lemma failing_loops: "\<forall>s. routing failing_graph ''PatientCreate'' s = Some ''PatientCreate''"
  by (simp add: failing_graph_def loop_back_def)

lemma failing_first:
  "body failing_graph ''PatientCreate'' default_state = Inl (AgentError ''503 Service Unavailable'')"
  by (simp add: failing_graph_def patientCreateNode_def runAgentNode_def default_state_def
        failing_agent_def)

text \<open>
  C7 as stated, refuted: a graph whose routing always loops the node back to itself,
  run with a budget of five, does not end with the step-limit failure when the node
  suspends. The node here is \<open>patientCreateNode\<close>: its second execution finds itself
  as the sender and raises the interrupt, and the run ends suspended after two node
  executions.
\<close>

theorem step_budget_counterexample:
  "routing self_talk_graph ''PatientCreate'' = loop_back ''PatientCreate''
   \<and> fst (run self_talk_graph 5 ''PatientCreate'' default_state) \<noteq> Failed StepLimitExceeded
   \<and> run self_talk_graph 5 ''PatientCreate'' default_state =
       (Suspended (default_state\<lparr>messages := [ai_msg ''What is the patient's name?'' []],
                     sender := Val ''Patient creater''\<rparr>),
        [''PatientCreate'', ''PatientCreate''])"
  by (simp add: self_talk_graph_def loop_back_def eval_nat_numeral patientCreateNode_def
        runAgentNode_def default_state_def echo_agent_def merge_def messages_reducer_def
        sender_reducer_def nullish_def patientCreate_reducer_def patient_reducer_def
        patientUpdate_reducer_def resourceApproved_reducer_def)

text \<open>
  C7, amended (step budget). An invocation with step budget \<open>budget\<close> executes at most
  \<open>budget\<close> nodes, whatever the graph: it never runs forever. It reports the step-limit
  failure only when the whole budget was used, a node's failure only with the error
  that the last node executed has thrown (never the interrupt signal), and a suspension
  only with the state on which the last node executed raised the interrupt; a first
  node that suspends or fails ends the run there. When the routing function always
  loops the node back to itself, the run never completes, and it ends with the
  step-limit failure exactly when \<open>budget\<close> executions in a row return an update, then
  after exactly \<open>budget\<close> executions; when instead the execution after \<open>k < budget\<close>
  returning ones raises the interrupt or throws an error, the run ends there, after
  \<open>k + 1\<close> executions, suspended with the state as of entry to that execution or failed
  with that error. The step-limit failure is not a node's error.
\<close>

theorem step_budget:
  "length (snd (run g budget n s)) \<le> budget
   \<and> (fst (run g budget n s) = Failed StepLimitExceeded \<longrightarrow>
        length (snd (run g budget n s)) = budget)
   \<and> (fst (run g budget n s) = Failed (NodeFatalError e) \<longrightarrow>
        snd (run g budget n s) \<noteq> [] \<and> \<not> interrupt_error e
        \<and> (\<exists>s1. body g (last (snd (run g budget n s))) s1 = Inl e))
   \<and> (fst (run g budget n s) = Suspended s2 \<longrightarrow>
        snd (run g budget n s) \<noteq> []
        \<and> (\<exists>m. body g (last (snd (run g budget n s))) s2 = Inl (NodeInterrupt m)))
   \<and> (0 < budget \<and> body g n s = Inl (NodeInterrupt m) \<longrightarrow>
        run g budget n s = (Suspended s, [n]))
   \<and> (0 < budget \<and> body g n s = Inl e \<and> \<not> interrupt_error e \<longrightarrow>
        run g budget n s = (Failed (NodeFatalError e), [n]))
   \<and> ((\<forall>s. routing g n s = Some n) \<longrightarrow>
        fst (run g budget n s) \<noteq> Completed s'
        \<and> (fst (run g budget n s) = Failed StepLimitExceeded)
            = (after_executions g n budget s \<noteq> None)
        \<and> (after_executions g n budget s \<noteq> None \<longrightarrow>
             run g budget n s = (Failed StepLimitExceeded, replicate budget n))
        \<and> (k < budget \<and> after_executions g n k s = Some sk
             \<and> body g n sk = Inl (NodeInterrupt m) \<longrightarrow>
             run g budget n s = (Suspended sk, replicate (Suc k) n))
        \<and> (k < budget \<and> after_executions g n k s = Some sk
             \<and> body g n sk = Inl e \<and> \<not> interrupt_error e \<longrightarrow>
             run g budget n s = (Failed (NodeFatalError e), replicate (Suc k) n)))
   \<and> ((\<forall>s. routing g n s = Some n) \<and> (\<forall>s. \<exists>u. body g n s = Inr u) \<longrightarrow>
        run g budget n s = (Failed StepLimitExceeded, replicate budget n))
   \<and> StepLimitExceeded \<noteq> NodeFatalError e"
proof -
  have c5: "0 < budget \<and> body g n s = Inl (NodeInterrupt m) \<longrightarrow>
        run g budget n s = (Suspended s, [n])"
    using run_first_suspends [of g n s m] by (cases budget) simp_all
  have c6: "0 < budget \<and> body g n s = Inl e \<and> \<not> interrupt_error e \<longrightarrow>
        run g budget n s = (Failed (NodeFatalError e), [n])"
    using run_first_fails [of g n s e] by (cases budget) simp_all
  have c7: "(\<forall>s. routing g n s = Some n) \<longrightarrow>
        fst (run g budget n s) \<noteq> Completed s'
        \<and> (fst (run g budget n s) = Failed StepLimitExceeded)
            = (after_executions g n budget s \<noteq> None)
        \<and> (after_executions g n budget s \<noteq> None \<longrightarrow>
             run g budget n s = (Failed StepLimitExceeded, replicate budget n))
        \<and> (k < budget \<and> after_executions g n k s = Some sk
             \<and> body g n sk = Inl (NodeInterrupt m) \<longrightarrow>
             run g budget n s = (Suspended sk, replicate (Suc k) n))
        \<and> (k < budget \<and> after_executions g n k s = Some sk
             \<and> body g n sk = Inl e \<and> \<not> interrupt_error e \<longrightarrow>
             run g budget n s = (Failed (NodeFatalError e), replicate (Suc k) n))"
    using run_self_loop_never_completes [of g n budget s s'] run_loop_limit_iff [of g n budget s]
      run_loop_limit [of g n budget s] run_loop_suspends [of g n k budget s sk m]
      run_loop_fails [of g n k budget s sk e]
    by blast
  have c8: "(\<forall>s. routing g n s = Some n) \<and> (\<forall>s. \<exists>u. body g n s = Inr u) \<longrightarrow>
        run g budget n s = (Failed StepLimitExceeded, replicate budget n)"
    using run_self_loop [of g n budget s] by blast
  have c1: "length (snd (run g budget n s)) \<le> budget"
    by (rule run_length)
  have c2: "fst (run g budget n s) = Failed StepLimitExceeded \<longrightarrow>
        length (snd (run g budget n s)) = budget"
    using run_limit_length [of g budget n s] by blast
  have c3: "fst (run g budget n s) = Failed (NodeFatalError e) \<longrightarrow>
        snd (run g budget n s) \<noteq> [] \<and> \<not> interrupt_error e
        \<and> (\<exists>s1. body g (last (snd (run g budget n s))) s1 = Inl e)"
    using run_fatal_origin [of g budget n s e] by blast
  have c4: "fst (run g budget n s) = Suspended s2 \<longrightarrow>
        snd (run g budget n s) \<noteq> []
        \<and> (\<exists>m. body g (last (snd (run g budget n s))) s2 = Inl (NodeInterrupt m))"
    using run_suspended_origin [of g budget n s s2] by blast
  have c9: "StepLimitExceeded \<noteq> NodeFatalError e"
    by simp
  show ?thesis
    by (rule conjI c1 c2 c3 c4 c5 c6 c7 c8 c9)+
qed

theorem step_budget_witness:
  "(\<forall>s. routing ticking_graph ''Tick'' s = Some ''Tick'')
   \<and> (\<forall>s. \<exists>u. body ticking_graph ''Tick'' s = Inr u)
   \<and> run ticking_graph 5 ''Tick'' default_state
       = (Failed StepLimitExceeded, [''Tick'', ''Tick'', ''Tick'', ''Tick'', ''Tick''])
   \<and> fst (run ticking_graph 5 ''Tick'' default_state) \<noteq> Completed default_state
   \<and> after_executions ticking_graph ''Tick'' 5 default_state \<noteq> None
   \<and> length (snd (run ticking_graph 5 ''Tick'' default_state)) = 5
   \<and> (\<forall>s. routing self_talk_graph ''PatientCreate'' s = Some ''PatientCreate'')
   \<and> (1::nat) < 5
   \<and> after_executions self_talk_graph ''PatientCreate'' 1 default_state
       = Some (default_state\<lparr>messages := [ai_msg ''What is the patient's name?'' []],
                 sender := Val ''Patient creater''\<rparr>)
   \<and> body self_talk_graph ''PatientCreate''
        (default_state\<lparr>messages := [ai_msg ''What is the patient's name?'' []],
           sender := Val ''Patient creater''\<rparr>)
       = Inl (NodeInterrupt ''Wait for user input'')
   \<and> run self_talk_graph 5 ''PatientCreate'' default_state
       = (Suspended (default_state\<lparr>messages := [ai_msg ''What is the patient's name?'' []],
                       sender := Val ''Patient creater''\<rparr>),
          [''PatientCreate'', ''PatientCreate''])
   \<and> after_executions self_talk_graph ''PatientCreate'' 5 default_state = None
   \<and> (\<forall>s. routing failing_graph ''PatientCreate'' s = Some ''PatientCreate'')
   \<and> body failing_graph ''PatientCreate'' default_state = Inl (AgentError ''503 Service Unavailable'')
   \<and> \<not> interrupt_error (AgentError ''503 Service Unavailable'')
   \<and> run failing_graph 5 ''PatientCreate'' default_state
       = (Failed (NodeFatalError (AgentError ''503 Service Unavailable'')), [''PatientCreate''])
   \<and> last (snd (run failing_graph 5 ''PatientCreate'' default_state)) = ''PatientCreate''"
proof -
  let ?s1 = "default_state\<lparr>messages := [ai_msg ''What is the patient's name?'' []],
                 sender := Val ''Patient creater''\<rparr>"
  let ?err = "AgentError ''503 Service Unavailable''"
  have a: "\<forall>s. routing ticking_graph ''Tick'' s = Some ''Tick''"
    by (simp add: ticking_graph_def loop_back_def)
  have b: "\<forall>s. \<exists>u. body ticking_graph ''Tick'' s = Inr u"
    by (simp add: ticking_graph_def)
  note tick = step_budget [of ticking_graph 5 "''Tick''" default_state ?err default_state
      "''Wait for user input''" default_state 0 default_state]
  note tick2 = tick [THEN conjunct2, THEN conjunct1]
  note tick7 = tick [THEN conjunct2, THEN conjunct2, THEN conjunct2, THEN conjunct2,
      THEN conjunct2, THEN conjunct2, THEN conjunct1, THEN mp, OF a]
  note tick8 = tick [THEN conjunct2, THEN conjunct2, THEN conjunct2, THEN conjunct2,
      THEN conjunct2, THEN conjunct2, THEN conjunct2, THEN conjunct1, THEN mp, OF conjI [OF a b]]
  have c: "run ticking_graph 5 ''Tick'' default_state = (Failed StepLimitExceeded, replicate 5 ''Tick'')"
    by (rule tick8)
  have d: "fst (run ticking_graph 5 ''Tick'' default_state) \<noteq> Completed default_state"
    by (rule tick7 [THEN conjunct1])
  from c have e: "run ticking_graph 5 ''Tick'' default_state
       = (Failed StepLimitExceeded, [''Tick'', ''Tick'', ''Tick'', ''Tick'', ''Tick''])"
    by (simp add: eval_nat_numeral)
  from c have f: "fst (run ticking_graph 5 ''Tick'' default_state) = Failed StepLimitExceeded"
    by simp
  have g: "after_executions ticking_graph ''Tick'' 5 default_state \<noteq> None"
    by (rule tick7 [THEN conjunct2, THEN conjunct1, THEN iffD1, OF f])
  have h: "length (snd (run ticking_graph 5 ''Tick'' default_state)) = 5"
    by (rule tick2 [THEN mp, OF f])
  have k: "(1::nat) < 5"
    by simp
  note talk = step_budget [of self_talk_graph 5 "''PatientCreate''" default_state ?err ?s1
      "''Wait for user input''" default_state 1 ?s1]
  note talk7 = talk [THEN conjunct2, THEN conjunct2, THEN conjunct2, THEN conjunct2,
      THEN conjunct2, THEN conjunct2, THEN conjunct1, THEN mp, OF self_talk_loops]
  have p: "run self_talk_graph 5 ''PatientCreate'' default_state
      = (Suspended ?s1, replicate (Suc 1) ''PatientCreate'')"
    by (rule talk7 [THEN conjunct2, THEN conjunct2, THEN conjunct2, THEN conjunct1, THEN mp,
          OF conjI [OF k conjI [OF self_talk_first self_talk_second]]])
  then have p': "run self_talk_graph 5 ''PatientCreate'' default_state
      = (Suspended ?s1, [''PatientCreate'', ''PatientCreate''])"
    by (simp add: eval_nat_numeral)
  from p have nl: "fst (run self_talk_graph 5 ''PatientCreate'' default_state) \<noteq> Failed StepLimitExceeded"
    by simp
  have q: "after_executions self_talk_graph ''PatientCreate'' 5 default_state = None"
    using talk7 [THEN conjunct2, THEN conjunct1] nl by simp
  have ne: "\<not> interrupt_error ?err"
    by (simp add: interrupt_error_def)
  have z: "(0::nat) < 5"
    by simp
  note fail = step_budget [of failing_graph 5 "''PatientCreate''" default_state ?err default_state
      "''Wait for user input''" default_state 0 default_state]
  have r: "run failing_graph 5 ''PatientCreate'' default_state
      = (Failed (NodeFatalError ?err), [''PatientCreate''])"
    by (rule fail [THEN conjunct2, THEN conjunct2, THEN conjunct2, THEN conjunct2, THEN conjunct2,
          THEN conjunct1, THEN mp, OF conjI [OF z conjI [OF failing_first ne]]])
  then have t: "last (snd (run failing_graph 5 ''PatientCreate'' default_state)) = ''PatientCreate''"
    by simp
  show ?thesis
    by (rule conjI a b e d g h self_talk_loops k self_talk_first self_talk_second p' q
          failing_loops failing_first ne r t)+
qed

section \<open>From the tool node to the apply node\<close>

text \<open>Two nodes executed one after the other are joined by an edge.\<close>

lemma run_head: "snd (run g budget n s) = [] \<or> hd (snd (run g budget n s)) = n"
proof (cases budget)
  case 0
  then show ?thesis by simp
next
  case (Suc k)
  show ?thesis
  proof (cases "body g n s")
    case (Inl e)
    with Suc show ?thesis by (cases e) simp_all
  next
    case (Inr u)
    with Suc show ?thesis
      by (cases "routing g n (merge s u)") (simp_all add: split_beta Let_def)
  qed
qed

lemma run_adjacent:
  "snd (run g budget n s) = xs @ a # b # ys \<Longrightarrow> \<exists>s'. routing g a s' = Some b"
proof (induction budget arbitrary: n s xs)
  case 0
  then show ?case by simp
next
  case (Suc budget)
  show ?case
  proof (cases "body g n s")
    case (Inl e)
    with Suc.prems show ?thesis by (cases e) simp_all
  next
    case (Inr u)
    show ?thesis
    proof (cases "routing g n (merge s u)")
      case None
      with Inr Suc.prems show ?thesis by simp
    next
      case (Some n')
      let ?rest = "snd (run g budget n' (merge s u))"
      from Inr Some Suc.prems have ex: "n # ?rest = xs @ a # b # ys"
        by (simp add: split_beta Let_def)
      show ?thesis
      proof (cases xs)
        case Nil
        with ex have an: "a = n" and rest: "?rest = b # ys"
          by simp_all
        from run_head [of g budget n' "merge s u"] rest have "b = n'"
          by simp
        with Some an show ?thesis by blast
      next
        case (Cons x xs')
        with ex have "?rest = xs' @ a # b # ys"
          by simp
        then show ?thesis by (rule Suc.IH)
      qed
    qed
  qed
qed

lemma run_next:
  assumes i: "Suc i < length (snd (run g budget n s))"
  shows "\<exists>s'. routing g (snd (run g budget n s) ! i) s' = Some (snd (run g budget n s) ! Suc i)"
proof -
  let ?tr = "snd (run g budget n s)"
  from i have "i < length ?tr" by simp
  then have "?tr = take i ?tr @ ?tr ! i # drop (Suc i) ?tr"
    by (rule id_take_nth_drop)
  moreover from i have "drop (Suc i) ?tr = ?tr ! Suc i # drop (Suc (Suc i)) ?tr"
    by (simp add: Cons_nth_drop_Suc)
  ultimately have "?tr = take i ?tr @ ?tr ! i # ?tr ! Suc i # drop (Suc (Suc i)) ?tr"
    by simp
  then show ?thesis by (rule run_adjacent)
qed

text \<open>
  C6 (from the tool node to the apply node). The edge out of \<^verbatim>\<open>CallTool\<close> is
  unconditional: for every state the next node is \<^verbatim>\<open>ToolMessageUpdateState\<close>. So in
  every run of a graph with the workflow's edges, a node executed right after
  \<^verbatim>\<open>CallTool\<close> is \<^verbatim>\<open>ToolMessageUpdateState\<close>. That node reads nothing but the last
  message of the history, the tool result just appended, and after it the domain
  routing function chooses the next node.
\<close>

theorem dispatcher_routes_to_apply:
  "workflow_edge ''CallTool'' s = Some ''ToolMessageUpdateState''
   \<and> workflow_edge ''CallTool'' s = workflow_edge ''CallTool'' s'
   \<and> (routing g = workflow_edge \<and> Suc i < length (snd (run g budget n s0))
        \<and> snd (run g budget n s0) ! i = ''CallTool'' \<longrightarrow>
        snd (run g budget n s0) ! Suc i = ''ToolMessageUpdateState'')
   \<and> workflow_edge ''ToolMessageUpdateState'' s = Some (toolMessageUpdateStateEdge s)
   \<and> toolMessageUpdateStateNode (s\<lparr>messages := ms @ [m]\<rparr>)
       = toolMessageUpdateStateNode (s'\<lparr>messages := [m]\<rparr>)"
proof -
  have a: "routing g = workflow_edge \<and> Suc i < length (snd (run g budget n s0))
        \<and> snd (run g budget n s0) ! i = ''CallTool'' \<longrightarrow>
        snd (run g budget n s0) ! Suc i = ''ToolMessageUpdateState''"
  proof (intro impI, elim conjE)
    assume r: "routing g = workflow_edge"
      and l: "Suc i < length (snd (run g budget n s0))"
      and c: "snd (run g budget n s0) ! i = ''CallTool''"
    from run_next [OF l] c obtain s1
      where "routing g ''CallTool'' s1 = Some (snd (run g budget n s0) ! Suc i)"
      by auto
    with r show "snd (run g budget n s0) ! Suc i = ''ToolMessageUpdateState''"
      by (simp add: workflow_edge_def)
  qed
  have b: "workflow_edge ''CallTool'' s = Some ''ToolMessageUpdateState''
     \<and> workflow_edge ''CallTool'' s = workflow_edge ''CallTool'' s'
     \<and> workflow_edge ''ToolMessageUpdateState'' s = Some (toolMessageUpdateStateEdge s)
     \<and> toolMessageUpdateStateNode (s\<lparr>messages := ms @ [m]\<rparr>)
       = toolMessageUpdateStateNode (s'\<lparr>messages := [m]\<rparr>)"
    by (simp add: workflow_edge_def toolMessageUpdateStateNode_def Let_def)
  from a b show ?thesis by blast
qed

theorem dispatcher_routes_to_apply_witness:
  "routing idle_workflow = workflow_edge
   \<and> Suc 0 < length (snd (run idle_workflow 2 ''CallTool'' s_batch))
   \<and> snd (run idle_workflow 2 ''CallTool'' s_batch) ! 0 = ''CallTool''
   \<and> snd (run idle_workflow 2 ''CallTool'' s_batch) ! Suc 0 = ''ToolMessageUpdateState''"
proof -
  have a: "routing idle_workflow = workflow_edge"
    by (simp add: idle_workflow_def)
  have b: "snd (run idle_workflow 2 ''CallTool'' s_batch) = ''CallTool'' # snd (run idle_workflow 1 ''ToolMessageUpdateState'' s_batch)"
    by (simp add: idle_workflow_def eval_nat_numeral workflow_edge_def Let_def merge_def no_update_def s_batch_def default_state_def split_beta)
  have c: "snd (run idle_workflow 1 ''ToolMessageUpdateState'' s_batch) \<noteq> []"
    by (simp add: idle_workflow_def workflow_edge_def Let_def)
  from b c have d: "Suc 0 < length (snd (run idle_workflow 2 ''CallTool'' s_batch))"
    and e: "snd (run idle_workflow 2 ''CallTool'' s_batch) ! 0 = ''CallTool''"
    by (simp_all)
  from a d e dispatcher_routes_to_apply [of _ _ idle_workflow 0 2 "''CallTool''" s_batch]
  have "snd (run idle_workflow 2 ''CallTool'' s_batch) ! Suc 0 = ''ToolMessageUpdateState''"
    by blast
  with a d e show ?thesis by blast
qed

section \<open>Dispatching a batch of tool calls\<close>

lemma nullish_assoc: "nullish z (nullish y x) = nullish (nullish z y) x"
  by (cases z) (simp_all add: nullish_def)

lemma merge_sel:
  "messages (merge s u) = (case u_messages u of None \<Rightarrow> messages s | Some y \<Rightarrow> messages_reducer (messages s) y)"
  "sender (merge s u) = (case u_sender u of None \<Rightarrow> sender s | Some y \<Rightarrow> sender_reducer (sender s) y)"
  "patientCreate (merge s u) = (case u_patientCreate u of None \<Rightarrow> patientCreate s
      | Some y \<Rightarrow> patientCreate_reducer (patientCreate s) y)"
  "patient (merge s u) = (case u_patient u of None \<Rightarrow> patient s | Some y \<Rightarrow> patient_reducer (patient s) y)"
  "patientUpdate (merge s u) = (case u_patientUpdate u of None \<Rightarrow> patientUpdate s
      | Some y \<Rightarrow> patientUpdate_reducer (patientUpdate s) y)"
  "resourceApproved (merge s u) = (case u_resourceApproved u of None \<Rightarrow> resourceApproved s
      | Some y \<Rightarrow> resourceApproved_reducer (resourceApproved s) y)"
  by (simp_all add: merge_def)

lemma combine_sel:
  "u_messages (combine a b) = combine_channel messages_reducer (u_messages a) (u_messages b)"
  "u_sender (combine a b) = combine_channel sender_reducer (u_sender a) (u_sender b)"
  "u_patientCreate (combine a b) = combine_channel patientCreate_reducer (u_patientCreate a) (u_patientCreate b)"
  "u_patient (combine a b) = combine_channel patient_reducer (u_patient a) (u_patient b)"
  "u_patientUpdate (combine a b) = combine_channel patientUpdate_reducer (u_patientUpdate a) (u_patientUpdate b)"
  "u_resourceApproved (combine a b)
     = combine_channel resourceApproved_reducer (u_resourceApproved a) (u_resourceApproved b)"
  by (simp_all add: combine_def)

lemma merge_combine: "merge s (combine a b) = merge (merge s a) b"
proof (rule AgentState.equality)
  show "messages (merge s (combine a b)) = messages (merge (merge s a) b)"
    by (cases "u_messages a"; cases "u_messages b")
      (simp_all add: merge_sel(1) combine_sel(1) combine_channel_def messages_reducer_def)
  show "sender (merge s (combine a b)) = sender (merge (merge s a) b)"
    by (cases "u_sender a"; cases "u_sender b")
      (simp_all add: merge_sel(2) combine_sel(2) combine_channel_def sender_reducer_def nullish_assoc)
  show "patientCreate (merge s (combine a b)) = patientCreate (merge (merge s a) b)"
    by (cases "u_patientCreate a"; cases "u_patientCreate b")
      (simp_all add: merge_sel(3) combine_sel(3) combine_channel_def patientCreate_reducer_def)
  show "patient (merge s (combine a b)) = patient (merge (merge s a) b)"
    by (cases "u_patient a"; cases "u_patient b")
      (simp_all add: merge_sel(4) combine_sel(4) combine_channel_def patient_reducer_def)
  show "patientUpdate (merge s (combine a b)) = patientUpdate (merge (merge s a) b)"
    by (cases "u_patientUpdate a"; cases "u_patientUpdate b")
      (simp_all add: merge_sel(5) combine_sel(5) combine_channel_def patientUpdate_reducer_def)
  show "resourceApproved (merge s (combine a b)) = resourceApproved (merge (merge s a) b)"
    by (cases "u_resourceApproved a"; cases "u_resourceApproved b")
      (simp_all add: merge_sel(6) combine_sel(6) combine_channel_def resourceApproved_reducer_def)
  show "AgentState.more (merge s (combine a b)) = AgentState.more (merge (merge s a) b)"
    by simp
qed

lemma merge_no_update: "merge s no_update = s"
  by (simp add: merge_def no_update_def)

lemma merge_fold_request:
  "merge s (fold_request registry summary acc tc) = apply_request registry summary (merge s acc) tc"
  by (simp add: fold_request_def apply_request_def merge_combine split_beta)

lemma merge_foldl_requests:
  "merge s (foldl (fold_request registry summary) acc tcs)
     = foldl (apply_request registry summary) (merge s acc) tcs"
  by (induction tcs arbitrary: acc) (simp_all add: merge_fold_request)

lemma atomic_commit:
  "merge s (toolDispatcher registry summary s)
     = foldl (apply_request registry summary) s (latest_tool_calls s)"
  by (simp add: toolDispatcher_def merge_foldl_requests merge_no_update)

lemma foldl_apply_messages:
  assumes "\<forall>tc \<in> set tcs. u_messages (fst (dispatch_request registry summary tc)) = None"
  shows "messages (foldl (apply_request registry summary) s tcs)
       = messages s @ map (\<lambda>tc. snd (dispatch_request registry summary tc)) tcs"
  using assms
proof (induction tcs arbitrary: s)
  case Nil
  show ?case by simp
next
  case (Cons tc tcs)
  have h: "u_messages (fst (dispatch_request registry summary tc)) = None"
    using Cons.prems by simp
  have m: "messages (apply_request registry summary s tc)
      = messages s @ [snd (dispatch_request registry summary tc)]"
    by (simp add: apply_request_def merge_def h messages_reducer_def no_update_def)
  have "\<forall>tc \<in> set tcs. u_messages (fst (dispatch_request registry summary tc)) = None"
    using Cons.prems by simp
  from Cons.IH [OF this, of "apply_request registry summary s tc"] m show ?case
    by simp
qed

lemma tools_write_no_messages: "u_messages (fst (dispatch_request tools summary tc)) = None"
  by (simp add: dispatch_request_def tools_def patientCreateTool_def patientUpdateTool_def
        resourceApprovalTool_def tool_def no_update_def split: option.splits)

lemma dispatch_unknown:
  "find (\<lambda>t. tool_name t = tc_name tc) registry = None \<Longrightarrow>
   dispatch_request registry summary tc
     = (no_update, result_turn (''Error: Tool \"'' @ tc_name tc @ ''\" not found.''))"
  by (simp add: dispatch_request_def)

lemma apply_unknown:
  "find (\<lambda>t. tool_name t = tc_name tc) registry = None \<Longrightarrow>
   apply_request registry summary s' tc
     = s'\<lparr>messages := messages s' @ [result_turn (''Error: Tool \"'' @ tc_name tc @ ''\" not found.'')]\<rparr>"
  by (simp add: apply_request_def dispatch_unknown merge_def no_update_def messages_reducer_def)

lemma latest_batch: "latest_tool_calls s_batch = [approve_call, unknown_call, create_call]"
  by (simp add: latest_tool_calls_def s_batch_def ai_msg_def)

lemma dispatch_approve:
  "dispatch_request tools ok_summary approve_call
     = (no_update\<lparr>u_resourceApproved := Some (Val True)\<rparr>, result_turn ''ok'')"
  by (simp add: dispatch_request_def tools_def patientCreateTool_def patientUpdateTool_def
        resourceApprovalTool_def tool_def approve_call_def approvalSchema_def z_field_def
        get_prop_def z_boolean_def ok_summary_def)

lemma find_unknown: "find (\<lambda>t. tool_name t = tc_name unknown_call) tools = None"
  by (simp add: tools_def patientCreateTool_def patientUpdateTool_def resourceApprovalTool_def
        tool_def unknown_call_def)

lemma draft_args_valid: "patientCreateSchema draft_args = Some sample_draft"
  by (simp add: patientCreateSchema_def draft_args_def sample_draft_def z_field_def get_prop_def js_def
      z_literal_def narrativeSchema_def z_enum_def z_string_def z_array_def humanNameSchema_def)

lemma dispatch_create:
  "dispatch_request tools ok_summary create_call
     = (no_update\<lparr>u_resourceApproved := Some Null, u_patient := Some Null,
          u_patientCreate := Some (Val sample_draft), u_patientUpdate := Some Null\<rparr>, result_turn ''ok'')"
  by (simp add: dispatch_request_def tools_def patientCreateTool_def tool_def create_call_def
        draft_args_valid ok_summary_def)

text \<open>
  C5 (unknown-tool recovery, atomic multi-tool commit). The one partial update the
  dispatcher returns, merged once, gives the state that results from taking the
  requests of the latest turn one by one, in their order, each with its partial update
  merged and its result turn appended: all of them, never a part. When no handler writes
  the history itself, the history grows by exactly one result turn per request, in
  order. A request that names a tool absent from the registry changes no channel and
  contributes a failure turn that names the tool; the other requests are processed all
  the same. With no request on the latest turn the update is empty.
\<close>

theorem atomic_multi_tool_commit:
  "merge s (toolDispatcher registry summary s)
     = foldl (apply_request registry summary) s (latest_tool_calls s)
   \<and> ((\<forall>tc \<in> set (latest_tool_calls s). u_messages (fst (dispatch_request registry summary tc)) = None) \<longrightarrow>
        messages (merge s (toolDispatcher registry summary s))
          = messages s @ map (\<lambda>tc. snd (dispatch_request registry summary tc)) (latest_tool_calls s))
   \<and> (find (\<lambda>t. tool_name t = tc_name tc) registry = None \<longrightarrow>
        dispatch_request registry summary tc
          = (no_update, result_turn (''Error: Tool \"'' @ tc_name tc @ ''\" not found.''))
        \<and> apply_request registry summary s' tc
          = s'\<lparr>messages := messages s' @ [result_turn (''Error: Tool \"'' @ tc_name tc @ ''\" not found.'')]\<rparr>)
   \<and> (latest_tool_calls s = [] \<longrightarrow> toolDispatcher registry summary s = no_update)"
proof -
  have a: "merge s (toolDispatcher registry summary s)
     = foldl (apply_request registry summary) s (latest_tool_calls s)"
    by (rule atomic_commit)
  have b: "(\<forall>tc \<in> set (latest_tool_calls s). u_messages (fst (dispatch_request registry summary tc)) = None) \<longrightarrow>
        messages (merge s (toolDispatcher registry summary s))
          = messages s @ map (\<lambda>tc. snd (dispatch_request registry summary tc)) (latest_tool_calls s)"
    using foldl_apply_messages [of "latest_tool_calls s" registry summary s] a by simp
  have c: "latest_tool_calls s = [] \<longrightarrow> toolDispatcher registry summary s = no_update"
    by (simp add: toolDispatcher_def)
  from a b c dispatch_unknown [of tc registry summary] apply_unknown [of tc registry summary s']
  show ?thesis by blast
qed

theorem atomic_multi_tool_commit_witness:
  "latest_tool_calls s_batch = [approve_call, unknown_call, create_call]
   \<and> u_messages (fst (dispatch_request tools ok_summary approve_call)) = None
   \<and> u_messages (fst (dispatch_request tools ok_summary unknown_call)) = None
   \<and> u_messages (fst (dispatch_request tools ok_summary create_call)) = None
   \<and> find (\<lambda>t. tool_name t = tc_name unknown_call) tools = None
   \<and> messages (merge s_batch (toolDispatcher tools ok_summary s_batch))
       = messages s_batch @ [result_turn ''ok'', result_turn ''Error: Tool \"approve\" not found.'', result_turn ''ok'']
   \<and> resourceApproved (merge s_batch (toolDispatcher tools ok_summary s_batch)) = Null
   \<and> patientCreate (merge s_batch (toolDispatcher tools ok_summary s_batch)) = Val sample_draft"
proof -
  have a: "\<forall>tc \<in> set (latest_tool_calls s_batch). u_messages (fst (dispatch_request tools ok_summary tc)) = None"
    by (simp add: tools_write_no_messages)
  note t = atomic_multi_tool_commit [of s_batch tools ok_summary unknown_call s_batch]
  from t a have m: "messages (merge s_batch (toolDispatcher tools ok_summary s_batch))
      = messages s_batch @ map (\<lambda>tc. snd (dispatch_request tools ok_summary tc)) (latest_tool_calls s_batch)"
    by blast
  from t find_unknown have u: "dispatch_request tools ok_summary unknown_call
      = (no_update, result_turn (''Error: Tool \"'' @ tc_name unknown_call @ ''\" not found.''))"
    by blast
  have tn: "tc_name unknown_call = ''approve''"
    by (simp add: unknown_call_def)
  from u have u': "dispatch_request tools ok_summary unknown_call
      = (no_update, result_turn ''Error: Tool \"approve\" not found.'')"
    by (simp add: tn)
  from t have f: "merge s_batch (toolDispatcher tools ok_summary s_batch)
      = foldl (apply_request tools ok_summary) s_batch (latest_tool_calls s_batch)"
    by blast
  have m': "messages (merge s_batch (toolDispatcher tools ok_summary s_batch))
       = messages s_batch @ [result_turn ''ok'', result_turn ''Error: Tool \"approve\" not found.'', result_turn ''ok'']"
    by (simp add: m latest_batch dispatch_approve dispatch_create u')
  have r: "resourceApproved (merge s_batch (toolDispatcher tools ok_summary s_batch)) = Null"
    unfolding f
    by (simp add: latest_batch apply_request_def dispatch_approve dispatch_create u' merge_sel
          no_update_def resourceApproved_reducer_def)
  have p: "patientCreate (merge s_batch (toolDispatcher tools ok_summary s_batch)) = Val sample_draft"
    unfolding f
    by (simp add: latest_batch apply_request_def dispatch_approve dispatch_create u' merge_sel
          no_update_def patientCreate_reducer_def)
  from latest_batch find_unknown m' r p show ?thesis
    by (simp add: tools_write_no_messages)
qed

end
